theory Spec2Isabelle
  imports Main
begin

section \<open>Data model\<close>

text \<open>
  The views of \<^verbatim>\<open>tom_dataproducts/views.py\<close> work on ORM tables, the media storage, the
  template-fragment cache, the messages framework, the module logger and outbound HTTP.
  Each of these is a field of one explicit state, \<open>world\<close>, which every view takes and
  returns. An exception is a value of \<open>error\<close>; a view returns \<open>(error + 'a) \<times> world\<close>,
  since what was written, sent or logged before a raise stays.
\<close>

record target =
  target_pk :: nat
  name :: string

text \<open>
  A \<open>DataProduct\<close> row. \<open>data_name\<close> is the name of the stored file (\<open>product.data.name\<close>),
  empty when the field holds no file.
\<close>

record data_product =
  pk :: nat
  target :: target
  observation_record :: "nat option"
  data_name :: string
  product_id :: "string option"
  data_product_type :: string
  featured :: bool

text \<open>A \<open>ReducedDatum\<close> row; \<open>data_product\<close> is its foreign key, which may be null.\<close>

record reduced_datum =
  data_product :: "nat option"
  datum_value :: string

datatype level = DEBUG | INFO | SUCCESS | WARNING | ERROR

text \<open>
  The exceptions that leave a view. \<open>ImproperlyConfigured\<close> carries the destination name and
  the missing key, from which the source formats its message.
\<close>

datatype error =
    KeyError string
  | ImproperlyConfigured string string
  | IndexError
  | UnboundLocalError string
  | ValueError string
  | OSError string
  | DoesNotExist
  | Http404
  | AttributeError string

text \<open>One row of \<open>csv.DictReader\<close>: column name to cell; a short line leaves \<open>None\<close> cells.\<close>

datatype cell = Str string | NoneCell

type_synonym row = "string \<rightharpoonup> cell"

text \<open>One entry of the HERMES photometry report.\<close>

record hermes_photometry =
  photometryId :: string
  dateObs :: cell
  band :: cell
  brightness :: cell
  brightnessError :: cell
  brightnessUnit :: string

text \<open>The alert; \<open>data\<close> is the list under \<open>alert['data']['photometry_data']\<close>.\<close>

record alert =
  topic :: string
  title :: string
  author :: string
  data :: "hermes_photometry list"
  message_text :: string

text \<open>
  The three outbound calls of the module: \<open>requests.post(url, json, headers)\<close>,
  \<open>requests.get(url, auth, params)\<close> and \<open>requests.post(url, data, files, headers, auth)\<close>.
  The multipart call carries the target id and type (\<open>data\<close>) and the file's name, content
  and media type (\<open>files\<close>).
\<close>

datatype http_call =
    POST_json string alert "(string \<times> string) list"
  | GET string "string \<times> string" "(string \<times> string) list"
  | POST_files string "nat \<times> string" "string \<times> string \<times> string"
      "(string \<times> string) list" "string \<times> string"

datatype response = Redirect_route string "string option" | Redirect_url string

text \<open>What a permission is granted on: a data product, or the reduced data of one.\<close>

datatype perm_object = On_product nat | On_reduced_data nat

text \<open>What was done to storage and tables, in order, for the claims about ordering.\<close>

datatype effect =
    File_opened string
  | Reduced_deleted nat
  | File_deleted string
  | Product_deleted nat

record world =
  data_products :: "data_product list"
  reduced_datums :: "reduced_datum list"
  next_pk :: nat
  media :: "string \<rightharpoonup> string"
  cache :: "(string \<times> string list) set"
  permissions :: "(string \<times> string \<times> perm_object) list"
  messages :: "(level \<times> string) list"
  logged :: "(level \<times> string) list"
  outbound :: "http_call list"
  effects :: "effect list"

record settings =
  DATA_SHARING :: "string \<rightharpoonup> (string \<rightharpoonup> string)"
  TARGET_PERMISSIONS_ONLY :: bool

text \<open>The destination TOM's answer to \<open>GET api/targets/\<close>, as \<open>response.json()\<close> gives it.\<close>

record remote_target =
  remote_id :: nat
  remote_name :: string
  aliases :: "string list"

record targets_page =
  count :: int
  results :: "remote_target list"

text \<open>
  What \<open>run_hook('data_product_post_upload', dp)\<close> and \<open>run_data_processor(dp)\<close> do for
  one uploaded product: the values of the \<open>ReducedDatum\<close> rows they write for it, and how
  they end.
\<close>

datatype outcome = Processed | Raised_InvalidFileFormatException string | Raised_Exception

record processed =
  created :: "string list"
  outcome :: outcome

text \<open>
  What the module takes from outside this file: \<open>DataProduct.__str__\<close>, the clock
  (\<open>str(datetime.datetime.now())\<close>), \<open>csv.DictReader\<close> on a file's text, the path
  component \<open>urlparse(url).path\<close>, the hook and the data processor of an upload, and the
  destination's replies (the targets page, and the status code and text of the reply to the
  data product POST).
\<close>

record externals =
  str_product :: "data_product \<Rightarrow> string"
  now :: string
  DictReader :: "string \<Rightarrow> row list"
  urlparse_path :: "string \<Rightarrow> string"
  run_data_processor :: "data_product \<Rightarrow> processed"
  targets_response :: targets_page
  post_response :: "int \<times> string"

text \<open>The validated upload form with the request's files (name and content of each).\<close>

record upload_form =
  cleaned_target :: "target option"
  cleaned_observation_record :: "(nat \<times> target) option"
  cleaned_data_product_type :: string
  cleaned_groups :: "string list"
  cleaned_referrer :: "string option"
  FILES :: "(string \<times> string) list"

section \<open>Helpers\<close>

text \<open>\<open>d[k]\<close> on a dict with string keys: \<open>KeyError\<close> when the key is missing.\<close>

definition getitem :: "(string \<rightharpoonup> 'a) \<Rightarrow> string \<Rightarrow> error + 'a" where
  "getitem d k = (case d k of None \<Rightarrow> Inl (KeyError k) | Some v \<Rightarrow> Inr v)"

text \<open>
  Sequencing: the next statement runs only when the one before it did not raise, first for
  pure expressions, then for statements that change the world.
\<close>

definition then_do :: "error + 'a \<Rightarrow> ('a \<Rightarrow> error + 'b) \<Rightarrow> error + 'b" where
  "then_do r f = (case r of Inl e \<Rightarrow> Inl e | Inr v \<Rightarrow> f v)"

definition and_then ::
  "(error + 'a) \<times> world \<Rightarrow> ('a \<Rightarrow> world \<Rightarrow> (error + 'b) \<times> world) \<Rightarrow> (error + 'b) \<times> world" where
  "and_then r f = (case fst r of Inl e \<Rightarrow> (Inl e, snd r) | Inr v \<Rightarrow> f v (snd r))"

text \<open>\<open>str(n)\<close> for an integer.\<close>

fun str_nat :: "nat \<Rightarrow> string" where
  "str_nat n =
     (if n < 10 then [char_of (48 + n)] else str_nat (n div 10) @ [char_of (48 + n mod 10)])"

definition str_int :: "int \<Rightarrow> string" where
  "str_int i = (if i < 0 then CHR ''-'' # str_nat (nat (- i)) else str_nat (nat i))"

text \<open>\<open>sep.join(xs)\<close>.\<close>

fun join :: "string \<Rightarrow> string list \<Rightarrow> string" where
  "join sep [] = []"
| "join sep [x] = x"
| "join sep (x # y # ys) = x @ sep @ join sep (y # ys)"

definition log :: "level \<Rightarrow> string \<Rightarrow> world \<Rightarrow> world" where
  "log l m w = w\<lparr>logged := logged w @ [(l, m)]\<rparr>"

definition add_message :: "level \<Rightarrow> string \<Rightarrow> world \<Rightarrow> world" where
  "add_message l m w = w\<lparr>messages := messages w @ [(l, m)]\<rparr>"

definition request :: "http_call \<Rightarrow> world \<Rightarrow> world" where
  "request c w = w\<lparr>outbound := outbound w @ [c]\<rparr>"

text \<open>\<open>DataProduct.objects.get(pk=...)\<close>: the row with that key, if any.\<close>

definition objects_get :: "world \<Rightarrow> nat option \<Rightarrow> data_product option" where
  "objects_get w k = (case k of None \<Rightarrow> None | Some i \<Rightarrow> find (\<lambda>p. pk p = i) (data_products w))"

section \<open>Sharing: \<open>DataProductShareView\<close>\<close>

subsection \<open>\<open>submit_to_stream\<close>\<close>

text \<open>The dict built for one row; the keys are read in the order the literal lists them.\<close>

definition hermes_entry :: "string \<Rightarrow> row \<Rightarrow> error + hermes_photometry" where
  "hermes_entry target_name tomtoolkit_photometry =
     then_do (getitem tomtoolkit_photometry ''time'') (\<lambda>t.
     then_do (getitem tomtoolkit_photometry ''filter'') (\<lambda>f.
     then_do (getitem tomtoolkit_photometry ''magnitude'') (\<lambda>m.
     then_do (getitem tomtoolkit_photometry ''error'') (\<lambda>r.
       Inr \<lparr>photometryId = target_name, dateObs = t, band = f, brightness = m,
            brightnessError = r, brightnessUnit = ''AB mag''\<rparr>))))"

text \<open>The loop over \<open>photometry_data\<close>, appending to \<open>hermes_photometry_data\<close>.\<close>

fun hermes_rows ::
  "string \<Rightarrow> row list \<Rightarrow> hermes_photometry list \<Rightarrow> error + hermes_photometry list" where
  "hermes_rows target_name [] hermes_photometry_data = Inr hermes_photometry_data"
| "hermes_rows target_name (r # rs) hermes_photometry_data =
     then_do (hermes_entry target_name r)
       (\<lambda>h. hermes_rows target_name rs (hermes_photometry_data @ [h]))"

text \<open>
  \<open>submit_to_stream(stream_name, target_name, photometry_data)\<close>. The two subscripts of the
  first line are not guarded; the \<open>message\<close> argument of the source is never read.
\<close>

definition submit_to_stream ::
  "settings \<Rightarrow> externals \<Rightarrow> string \<Rightarrow> string \<Rightarrow> row list \<Rightarrow> world \<Rightarrow> (error + unit) \<times> world" where
  "submit_to_stream st ex stream_name target_name photometry_data w =
     and_then (then_do (getitem (DATA_SHARING st) stream_name)
                 (\<lambda>entry. getitem entry ''BASE_URL''), w)
       (\<lambda>hermes_base_url w.
          let submit_url = hermes_base_url @ ''submit/'';
              headers = []
          in and_then (hermes_rows target_name photometry_data [], w)
               (\<lambda>hermes_photometry_data w.
                  let alert = \<lparr>topic = ''hermes.test'',
                               title = ''TOM Toolkit test (Photometry)'',
                               author = ''llindstrom@lco.global'',
                               data = hermes_photometry_data,
                               message_text = ''Test alert from TOM Toolkit at '' @ now ex\<rparr>
                  in (Inr (), request (POST_json submit_url alert headers) w)))"

subsection \<open>\<open>share_with_tom\<close>\<close>

text \<open>The \<open>try\<close> block: three subscripts, any \<open>KeyError\<close> re-raised as \<open>ImproperlyConfigured\<close>.\<close>

definition sharing_config :: "settings \<Rightarrow> string \<Rightarrow> error + (string \<times> string \<times> string)" where
  "sharing_config st tom_name =
     (case
        then_do (getitem (DATA_SHARING st) tom_name) (\<lambda>entry.
        then_do (getitem entry ''BASE_URL'') (\<lambda>destination_tom_base_url.
        then_do (getitem entry ''USERNAME'') (\<lambda>username.
        then_do (getitem entry ''PASSWORD'') (\<lambda>password.
          Inr (destination_tom_base_url, username, password)))))
      of Inl (KeyError err) \<Rightarrow> Inl (ImproperlyConfigured tom_name err)
       | Inl e \<Rightarrow> Inl e
       | Inr c \<Rightarrow> Inr c)"

definition not_found_warning :: "string \<Rightarrow> string \<Rightarrow> string" where
  "not_found_warning target_name tom_name =
     ''DataProductShareView.share_with_tom Target '' @ target_name @ '' not found on ''
       @ tom_name @ ''. ''
     @ ''If target '' @ target_name @ '' does exist on the destination TOM, then this may an ''
     @ ''authentication problem preventing access to the targets on '' @ tom_name @ ''.''"

text \<open>The message of the ambiguous case: a heading, then one line per returned target.\<close>

fun ambiguous_lines :: "remote_target list \<Rightarrow> string \<Rightarrow> string" where
  "ambiguous_lines [] msg = msg"
| "ambiguous_lines (t # ts) msg =
     ambiguous_lines ts
       (msg @ ''  Target: '' @ remote_name t @ '' Aliases: '' @ join '', '' (aliases t)
          @ [CHR 0x0A])"

definition ambiguous_warning :: "string \<Rightarrow> string \<Rightarrow> remote_target list \<Rightarrow> string" where
  "ambiguous_warning target_name tom_name rs =
     ambiguous_lines rs
       (''Target name must be unique on destination TOM '' @ tom_name @ ''. ''
        @ ''The following targets share a name or alias with '' @ target_name @ '':''
        @ [CHR 0x0A])"

text \<open>\<open>open(path)\<close> on a stored file: its text, and the opening is recorded.\<close>

definition open_file :: "string \<Rightarrow> world \<Rightarrow> (error + string) \<times> world" where
  "open_file path w =
     (case media w path of
        None \<Rightarrow> (Inl (OSError path), w)
      | Some text \<Rightarrow> (Inr text, w\<lparr>effects := effects w @ [File_opened path]\<rparr>))"

text \<open>
  The second half of \<open>share_with_tom\<close>: open the stored file, build \<open>files\<close> and \<open>data\<close>,
  POST, log the reply. \<open>destination_tom_target_id\<close> is \<open>None\<close> here when no branch above
  bound the variable; reading it then raises \<open>UnboundLocalError\<close>, after the file was opened.
\<close>

definition post_data_product ::
  "externals \<Rightarrow> string \<Rightarrow> string \<times> string \<Rightarrow> nat option \<Rightarrow> data_product \<Rightarrow> world
     \<Rightarrow> (error + unit) \<times> world" where
  "post_data_product ex destination_tom_base_url auth destination_tom_target_id product w =
     (let data_products_url = destination_tom_base_url @ ''api/dataproducts/''
      in and_then (open_file (data_name product) w)
           (\<lambda>dataproduct_filep w1.
              let files = (data_name product, dataproduct_filep, ''text/csv'')
              in (case destination_tom_target_id of
                    None \<Rightarrow> (Inl (UnboundLocalError ''destination_tom_target_id''), w1)
                  | Some tid \<Rightarrow>
                      (let post_data = (tid, data_product_type product);
                           headers = [(''Media-Type'', ''multipart/form-data'')];
                           w2 = request
                                  (POST_files data_products_url post_data files headers auth) w1;
                           w3 = log DEBUG
                                  (''DataProductShareView.share_with_tom response.status_code: ''
                                     @ str_int (fst (post_response ex))) w2;
                           w4 = log DEBUG
                                  (''DataProductShareView.share_with_tom response.text: ''
                                     @ snd (post_response ex)) w3
                       in (Inr (), w4)))))"

definition share_with_tom ::
  "settings \<Rightarrow> externals \<Rightarrow> string \<Rightarrow> data_product \<Rightarrow> world \<Rightarrow> (error + unit) \<times> world" where
  "share_with_tom st ex tom_name product w =
     and_then (sharing_config st tom_name, w)
       (\<lambda>(destination_tom_base_url, username, password) w.
          let auth = (username, password);
              tname = name (target product);
              targets_url = destination_tom_base_url @ ''api/targets/'';
              target_params = [(''name'', tname)];
              w1 = request (GET targets_url auth target_params) w;
              target_response = targets_response ex
          in if count target_response = 1 then
               (case results target_response of
                  [] \<Rightarrow> (Inl IndexError, w1)
                | t # ts \<Rightarrow>
                    post_data_product ex destination_tom_base_url auth (Some (remote_id t))
                      product w1)
             else if count target_response = 0 then
               (Inr (), log WARNING (not_found_warning tname tom_name) w1)
             else if count target_response > 1 then
               (Inr (),
                log WARNING (ambiguous_warning tname tom_name (results target_response)) w1)
             else post_data_product ex destination_tom_base_url auth None product w1)"

subsection \<open>\<open>get\<close>\<close>

text \<open>The destination is a constant of the source, not yet taken from the request.\<close>

definition sharing_destination :: string where
  "sharing_destination = ''hermes''"

definition target_detail :: "(string \<rightharpoonup> string) \<Rightarrow> response" where
  "target_detail request_GET = Redirect_route ''tom_targets:detail'' (request_GET ''target_id'')"

text \<open>
  \<open>product.data.path\<close> raises \<open>ValueError\<close> when the field holds no file; otherwise the
  file is opened and read by \<open>csv.DictReader\<close>.
\<close>

definition DataProductShareView_get ::
  "settings \<Rightarrow> externals \<Rightarrow> (string \<rightharpoonup> string) \<Rightarrow> nat option \<Rightarrow> world
     \<Rightarrow> (error + response) \<times> world" where
  "DataProductShareView_get st ex request_GET kwargs_pk w =
     (case objects_get w kwargs_pk of
        None \<Rightarrow> (Inl DoesNotExist, w)
      | Some product \<Rightarrow>
          (let w0 = log DEBUG (''Sharing data product: '' @ str_product ex product
                                 @ '' of type: '' @ data_product_type product) w
           in if data_product_type product = ''photometry'' then
                (if sharing_destination = ''hermes'' then
                   (if data_name product = [] then (Inl (ValueError ''data''), w0)
                    else and_then (open_file (data_name product) w0)
                           (\<lambda>csvfile w1.
                              and_then (submit_to_stream st ex sharing_destination
                                          (name (target product)) (DictReader ex csvfile) w1)
                                (\<lambda>u w2. (Inr (target_detail request_GET), w2))))
                 else and_then (share_with_tom st ex sharing_destination product w0)
                        (\<lambda>u w2. (Inr (target_detail request_GET), w2)))
              else (Inr (target_detail request_GET), w0)))"

section \<open>Featuring: \<open>DataProductFeatureView\<close>\<close>

text \<open>
  \<open>instance.save()\<close> for an instance that has a key: the row with that key is replaced,
  and the instance is inserted when no row has it.
\<close>

definition save :: "data_product \<Rightarrow> world \<Rightarrow> world" where
  "save p w =
     (if list_ex (\<lambda>q. pk q = pk p) (data_products w)
      then w\<lparr>data_products := map (\<lambda>q. if pk q = pk p then p else q) (data_products w)\<rparr>
      else w\<lparr>data_products := data_products w @ [p]\<rparr>)"






section \<open>Deleting: \<open>DataProductDeleteView\<close>\<close>

text \<open>\<open>self.get_object()\<close>: the row named by the URL, or a 404.\<close>

definition get_object :: "nat option \<Rightarrow> world \<Rightarrow> (error + data_product) \<times> world" where
  "get_object kwargs_pk w =
     (case objects_get w kwargs_pk of None \<Rightarrow> (Inl Http404, w) | Some p \<Rightarrow> (Inr p, w))"

text \<open>\<open>ReducedDatum.objects.filter(data_product=dp).delete()\<close>.\<close>

definition delete_reduced_datums :: "data_product \<Rightarrow> world \<Rightarrow> world" where
  "delete_reduced_datums dp w =
     w\<lparr>reduced_datums := filter (\<lambda>r. data_product r \<noteq> Some (pk dp)) (reduced_datums w),
       effects := effects w @ [Reduced_deleted (pk dp)]\<rparr>"

text \<open>
  \<open>instance.data.delete()\<close>, the file field's own delete: nothing when the field holds no
  file; otherwise the file leaves the storage, the field is emptied and the instance is
  saved.
\<close>

definition data_delete :: "data_product \<Rightarrow> world \<Rightarrow> world" where
  "data_delete dp w =
     (if data_name dp = [] then w
      else save (dp\<lparr>data_name := []\<rparr>)
             (w\<lparr>media := (media w)(data_name dp := None),
                effects := effects w @ [File_deleted (data_name dp)]\<rparr>))"

text \<open>
  \<open>dp.delete()\<close>: the row goes. The rows that reference it are not touched here, so that
  what the views themselves delete stays visible.
\<close>

definition delete_product :: "data_product \<Rightarrow> world \<Rightarrow> world" where
  "delete_product dp w =
     w\<lparr>data_products := filter (\<lambda>p. pk p \<noteq> pk dp) (data_products w),
       effects := effects w @ [Product_deleted (pk dp)]\<rparr>"

definition get_success_url :: "externals \<Rightarrow> (string \<rightharpoonup> string) \<Rightarrow> string" where
  "get_success_url ex request_GET =
     (case request_GET ''next'' of
        None \<Rightarrow> ''/''
      | Some referer \<Rightarrow> if referer = [] then ''/'' else urlparse_path ex referer)"

text \<open>
  \<open>delete\<close>: two statements of the view, then \<open>super().delete\<close>, which fetches the object
  again, computes the success URL, deletes the object and redirects.
\<close>

definition DataProductDeleteView_delete ::
  "externals \<Rightarrow> (string \<rightharpoonup> string) \<Rightarrow> nat option \<Rightarrow> world \<Rightarrow> (error + response) \<times> world" where
  "DataProductDeleteView_delete ex request_GET kwargs_pk w =
     and_then (get_object kwargs_pk w) (\<lambda>obj1 w1.
     and_then (get_object kwargs_pk (delete_reduced_datums obj1 w1)) (\<lambda>obj2 w2.
     and_then (get_object kwargs_pk (data_delete obj2 w2)) (\<lambda>obj3 w3.
       (Inr (Redirect_url (get_success_url ex request_GET)), delete_product obj3 w3))))"

section \<open>Uploading: \<open>DataProductUploadView\<close>\<close>

text \<open>
  \<open>dp.save()\<close> on a new instance: the row is inserted under the next key. The write of
  the uploaded file into the media storage is not part of this state.
\<close>

definition create_product :: "data_product \<Rightarrow> world \<Rightarrow> data_product \<times> world" where
  "create_product dp w =
     (let dp' = dp\<lparr>pk := next_pk w\<rparr>
      in (dp', w\<lparr>data_products := data_products w @ [dp'], next_pk := Suc (next_pk w)\<rparr>))"

definition write_reduced_datums :: "data_product \<Rightarrow> string list \<Rightarrow> world \<Rightarrow> world" where
  "write_reduced_datums dp vs w =
     w\<lparr>reduced_datums :=
         reduced_datums w @ map (\<lambda>v. \<lparr>data_product = Some (pk dp), datum_value = v\<rparr>) vs\<rparr>"

text \<open>The three \<open>assign_perm\<close> calls for one group, and the loop over the groups of the form.\<close>

definition group_perms :: "string \<Rightarrow> data_product \<Rightarrow> (string \<times> string \<times> perm_object) list" where
  "group_perms g dp =
     [(''tom_dataproducts.view_dataproduct'', g, On_product (pk dp)),
      (''tom_dataproducts.delete_dataproduct'', g, On_product (pk dp)),
      (''tom_dataproducts.view_reduceddatum'', g, On_reduced_data (pk dp))]"

fun assign_perms :: "string list \<Rightarrow> data_product \<Rightarrow> world \<Rightarrow> world" where
  "assign_perms [] dp w = w"
| "assign_perms (g # gs) dp w =
     assign_perms gs dp (w\<lparr>permissions := permissions w @ group_perms g dp\<rparr>)"

text \<open>The two \<open>except\<close> clauses do the same cleanup and differ in the message.\<close>

definition cleanup :: "data_product \<Rightarrow> string \<Rightarrow> world \<Rightarrow> world" where
  "cleanup dp message w =
     add_message ERROR message (delete_product dp (delete_reduced_datums dp w))"

definition invalid_format_message :: "externals \<Rightarrow> data_product \<Rightarrow> string \<Rightarrow> string" where
  "invalid_format_message ex dp iffe =
     ''File format invalid for file '' @ str_product ex dp @ '' -- error was '' @ iffe"

definition problem_message :: "externals \<Rightarrow> data_product \<Rightarrow> string" where
  "problem_message ex dp = ''There was a problem processing your file: '' @ str_product ex dp"

text \<open>The instance built for one file, before it is saved.\<close>

definition new_data_product ::
  "target \<Rightarrow> nat option \<Rightarrow> string \<times> string \<Rightarrow> string \<Rightarrow> data_product" where
  "new_data_product tgt obs f dp_type =
     \<lparr>pk = 0, target = tgt, observation_record = obs, data_name = fst f,
      product_id = None, data_product_type = dp_type, featured = False\<rparr>"

text \<open>The loop over \<open>data_product_files\<close>; \<open>successful_uploads\<close> is threaded through.\<close>

fun upload_files ::
  "settings \<Rightarrow> externals \<Rightarrow> upload_form \<Rightarrow> target \<Rightarrow> nat option \<Rightarrow> (string \<times> string) list
     \<Rightarrow> string list \<Rightarrow> world \<Rightarrow> string list \<times> world" where
  "upload_files st ex form tgt obs [] successful_uploads w = (successful_uploads, w)"
| "upload_files st ex form tgt obs (f # fs) successful_uploads w =
     (let (dp, w1) =
            create_product (new_data_product tgt obs f (cleaned_data_product_type form)) w;
          r = run_data_processor ex dp;
          w2 = write_reduced_datums dp (created r) w1
      in case outcome r of
           Processed \<Rightarrow>
             upload_files st ex form tgt obs fs (successful_uploads @ [str_product ex dp])
               (if \<not> TARGET_PERMISSIONS_ONLY st then assign_perms (cleaned_groups form) dp w2
                else w2)
         | Raised_InvalidFileFormatException iffe \<Rightarrow>
             upload_files st ex form tgt obs fs successful_uploads
               (cleanup dp (invalid_format_message ex dp iffe) w2)
         | Raised_Exception \<Rightarrow>
             upload_files st ex form tgt obs fs successful_uploads
               (cleanup dp (problem_message ex dp) w2))"

text \<open>
  \<open>form_valid\<close>. With no target the observation record supplies it; with neither, the
  attribute access on \<open>None\<close> raises.
\<close>

definition DataProductUploadView_form_valid ::
  "settings \<Rightarrow> externals \<Rightarrow> upload_form \<Rightarrow> world \<Rightarrow> (error + response) \<times> world" where
  "DataProductUploadView_form_valid st ex form w =
     and_then
       (case cleaned_target form of
          Some t \<Rightarrow> (Inr (t, None), w)
        | None \<Rightarrow>
            (case cleaned_observation_record form of
               None \<Rightarrow> (Inl (AttributeError ''target''), w)
             | Some (observation_pk, t) \<Rightarrow> (Inr (t, Some observation_pk), w)))
       (\<lambda>(tgt, obs) w.
          let (successful_uploads, w1) = upload_files st ex form tgt obs (FILES form) [] w;
              w2 = (if successful_uploads \<noteq> []
                    then add_message SUCCESS
                           (''Successfully uploaded: '' @ join [CHR 0x0A] successful_uploads) w1
                    else w1)
          in (Inr (Redirect_url (case cleaned_referrer form of None \<Rightarrow> ''/'' | Some r \<Rightarrow> r)),
              w2))"

subsection \<open>The loop, file by file\<close>

text \<open>
  The products the loop saves, one for each file, under consecutive keys from \<open>n\<close>; whether
  the processing of a saved product ended normally; the rows it wrote for it; and the message
  of the \<open>except\<close> clause that caught its exception (none when it ended normally).
\<close>

definition saved_products ::
  "upload_form \<Rightarrow> target \<Rightarrow> nat option \<Rightarrow> nat \<Rightarrow> (string \<times> string) list \<Rightarrow> data_product list" where
  "saved_products form tgt obs n files =
     map (\<lambda>(k, f). (new_data_product tgt obs f (cleaned_data_product_type form))\<lparr>pk := k\<rparr>)
       (enumerate n files)"

definition processed_ok :: "externals \<Rightarrow> data_product \<Rightarrow> bool" where
  "processed_ok ex dp = (outcome (run_data_processor ex dp) = Processed)"

definition rows_written :: "externals \<Rightarrow> data_product \<Rightarrow> reduced_datum list" where
  "rows_written ex dp =
     map (\<lambda>v. \<lparr>data_product = Some (pk dp), datum_value = v\<rparr>) (created (run_data_processor ex dp))"

definition failure_message :: "externals \<Rightarrow> data_product \<Rightarrow> string" where
  "failure_message ex dp =
     (case outcome (run_data_processor ex dp) of
        Processed \<Rightarrow> []
      | Raised_InvalidFileFormatException iffe \<Rightarrow> invalid_format_message ex dp iffe
      | Raised_Exception \<Rightarrow> problem_message ex dp)"

section \<open>Concrete inputs\<close>

text \<open>
  A reader for comma-separated text without quoting, standing for \<open>csv.DictReader\<close> on the
  files below: the first non-empty line names the columns, every other non-empty line is a
  row, a short line leaves \<open>None\<close> cells, and a repeated column keeps its last value.
\<close>

fun split_on :: "char \<Rightarrow> string \<Rightarrow> string \<Rightarrow> string list" where
  "split_on c [] cur = [cur]"
| "split_on c (x # xs) cur =
     (if x = c then cur # split_on c xs [] else split_on c xs (cur @ [x]))"

definition dict_zip :: "string list \<Rightarrow> string list \<Rightarrow> row" where
  "dict_zip fieldnames cells =
     map_of (rev (zip fieldnames
                    (map Str cells @ replicate (length fieldnames - length cells) NoneCell)))"

definition plain_DictReader :: "string \<Rightarrow> row list" where
  "plain_DictReader text =
     (case filter (\<lambda>l. l \<noteq> []) (split_on (CHR 0x0A) text []) of
        [] \<Rightarrow> []
      | header # lines \<Rightarrow>
          map (\<lambda>l. dict_zip (split_on (CHR '','') header []) (split_on (CHR '','') l []))
            lines)"

definition example_csv :: string where
  "example_csv =
     ''time,filter,magnitude,error'' @ [CHR 0x0A]
     @ ''59000.5,r,17.2,0.05'' @ [CHR 0x0A]
     @ ''59001.5,g,17.9,0.07'' @ [CHR 0x0A]"

definition example_rows :: "row list" where
  "example_rows =
     [[''time'' \<mapsto> Str ''59000.5'', ''filter'' \<mapsto> Str ''r'', ''magnitude'' \<mapsto> Str ''17.2'',
       ''error'' \<mapsto> Str ''0.05''],
      [''time'' \<mapsto> Str ''59001.5'', ''filter'' \<mapsto> Str ''g'', ''magnitude'' \<mapsto> Str ''17.9'',
       ''error'' \<mapsto> NoneCell]]"

definition example_target :: target where
  "example_target = \<lparr>target_pk = 7, name = ''M31''\<rparr>"

definition example_product :: data_product where
  "example_product =
     \<lparr>pk = 1, target = example_target, observation_record = None,
      data_name = ''photometry.csv'', product_id = None, data_product_type = ''photometry'',
      featured = False\<rparr>"

definition example_spectrum :: data_product where
  "example_spectrum =
     \<lparr>pk = 2, target = example_target, observation_record = None,
      data_name = ''spectrum.fits'', product_id = None, data_product_type = ''spectroscopy'',
      featured = True\<rparr>"

definition example_image :: data_product where
  "example_image =
     \<lparr>pk = 3, target = example_target, observation_record = None,
      data_name = ''image.fits'', product_id = None, data_product_type = ''photometry'',
      featured = True\<rparr>"

definition example_world :: world where
  "example_world =
     \<lparr>data_products = [example_product, example_spectrum, example_image],
      reduced_datums =
        [\<lparr>data_product = Some 1, datum_value = ''17.2''\<rparr>,
         \<lparr>data_product = Some 2, datum_value = ''flux''\<rparr>,
         \<lparr>data_product = None, datum_value = ''broker''\<rparr>,
         \<lparr>data_product = Some 1, datum_value = ''17.9''\<rparr>],
      next_pk = 4,
      media = [''photometry.csv'' \<mapsto> example_csv, ''spectrum.fits'' \<mapsto> ''SIMPLE'',
               ''image.fits'' \<mapsto> ''SIMPLE''],
      cache = {(''featured_image'', [''7'']), (''featured_image'', [''8''])},
      permissions = [], messages = [], logged = [], outbound = [], effects = []\<rparr>"

definition hermes_only :: "string \<rightharpoonup> string" where
  "hermes_only = [''BASE_URL'' \<mapsto> ''https://hermes.example/'']"

definition example_settings :: settings where
  "example_settings =
     \<lparr>DATA_SHARING =
        [''hermes'' \<mapsto> hermes_only,
         ''localhost-tom'' \<mapsto> [''BASE_URL'' \<mapsto> ''http://127.0.0.1:8000/'',
                              ''USERNAME'' \<mapsto> ''alice'', ''PASSWORD'' \<mapsto> ''secret'']],
      TARGET_PERMISSIONS_ONLY = False\<rparr>"

text \<open>An upload in which the file named \<open>bad.csv\<close> is refused after one row was written.\<close>

definition example_processor :: "data_product \<Rightarrow> processed" where
  "example_processor dp =
     (if data_name dp = ''bad.csv''
      then \<lparr>created = [''partial''], outcome = Raised_InvalidFileFormatException ''no header''\<rparr>
      else if data_name dp = ''worse.csv''
      then \<lparr>created = [''partial'', ''more''], outcome = Raised_Exception\<rparr>
      else \<lparr>created = [''18.1'', ''18.3''], outcome = Processed\<rparr>)"

definition example_externals :: externals where
  "example_externals =
     \<lparr>str_product = data_name, now = ''2023-05-01 12:00:00'',
      DictReader = plain_DictReader, urlparse_path = (\<lambda>u. u),
      run_data_processor = example_processor,
      targets_response =
        \<lparr>count = 1,
         results = [\<lparr>remote_id = 42, remote_name = ''M31'', aliases = [''NGC 224'']\<rparr>]\<rparr>,
      post_response = (201, ''created'')\<rparr>"

definition example_form :: upload_form where
  "example_form =
     \<lparr>cleaned_target = Some example_target, cleaned_observation_record = None,
      cleaned_data_product_type = ''photometry'', cleaned_groups = [''observers''],
      cleaned_referrer = Some ''/targets/7/'',
      FILES = [(''first.csv'', ''a''), (''bad.csv'', ''b''), (''worse.csv'', ''c''),
               (''last.csv'', ''d'')]\<rparr>"

text \<open>A targets page on which two targets answer to the name.\<close>

definition two_matches :: targets_page where
  "two_matches =
     \<lparr>count = 2,
      results = [\<lparr>remote_id = 42, remote_name = ''M31'', aliases = [''NGC 224'', ''Andromeda'']\<rparr>,
                 \<lparr>remote_id = 57, remote_name = ''M31 nova'', aliases = [''M31'']\<rparr>]\<rparr>"

section \<open>Properties\<close>

subsection \<open>Sequencing and lookups\<close>

lemma then_do_simps [simp]:
  "then_do (Inl e) f = Inl e"
  "then_do (Inr v) f = f v"
  by (simp_all add: then_do_def)

lemma and_then_simps [simp]:
  "and_then (Inl e, w) f = (Inl e, w)"
  "and_then (Inr v, w) f = f v w"
  by (simp_all add: and_then_def)

lemma getitem_simps [simp]:
  "d k = Some v \<Longrightarrow> getitem d k = Inr v"
  "d k = None \<Longrightarrow> getitem d k = Inl (KeyError k)"
  by (simp_all add: getitem_def)

lemma hermes_entry_ok:
  assumes "r ''time'' = Some t" "r ''filter'' = Some f" "r ''magnitude'' = Some m"
    "r ''error'' = Some e"
  shows "hermes_entry tn r =
    Inr \<lparr>photometryId = tn, dateObs = t, band = f, brightness = m,
         brightnessError = e, brightnessUnit = ''AB mag''\<rparr>"
  using assms by (simp add: hermes_entry_def)

lemma hermes_rows_ok:
  "\<forall>r\<in>set rows. {''time'', ''filter'', ''magnitude'', ''error''} \<subseteq> dom r \<Longrightarrow>
   \<exists>hs. hermes_rows tn rows acc = Inr (acc @ hs) \<and> length hs = length rows \<and>
     (\<forall>i<length rows. photometryId (hs ! i) = tn
        \<and> (rows ! i) ''time'' = Some (dateObs (hs ! i))
        \<and> (rows ! i) ''filter'' = Some (band (hs ! i))
        \<and> (rows ! i) ''magnitude'' = Some (brightness (hs ! i))
        \<and> (rows ! i) ''error'' = Some (brightnessError (hs ! i))
        \<and> brightnessUnit (hs ! i) = ''AB mag'')"
proof (induction rows arbitrary: acc)
  case Nil
  then show ?case by simp
next
  case (Cons r rows)
  from Cons.prems obtain t f m e where
    r: "r ''time'' = Some t" "r ''filter'' = Some f" "r ''magnitude'' = Some m"
       "r ''error'' = Some e"
    by (auto simp: dom_def subset_eq)
  let ?h = "\<lparr>photometryId = tn, dateObs = t, band = f, brightness = m,
             brightnessError = e, brightnessUnit = ''AB mag''\<rparr>"
  have he: "hermes_entry tn r = Inr ?h"
    using r by (rule hermes_entry_ok)
  from Cons.prems
  have "\<forall>r\<in>set rows. {''time'', ''filter'', ''magnitude'', ''error''} \<subseteq> dom r"
    by simp
  from Cons.IH[OF this, of "acc @ [?h]"] obtain hs where
    hs: "hermes_rows tn rows (acc @ [?h]) = Inr ((acc @ [?h]) @ hs)" "length hs = length rows"
    and each: "\<forall>i<length rows. photometryId (hs ! i) = tn
        \<and> (rows ! i) ''time'' = Some (dateObs (hs ! i))
        \<and> (rows ! i) ''filter'' = Some (band (hs ! i))
        \<and> (rows ! i) ''magnitude'' = Some (brightness (hs ! i))
        \<and> (rows ! i) ''error'' = Some (brightnessError (hs ! i))
        \<and> brightnessUnit (hs ! i) = ''AB mag''"
    by blast
  have "\<forall>i<length (r # rows). photometryId ((?h # hs) ! i) = tn
        \<and> ((r # rows) ! i) ''time'' = Some (dateObs ((?h # hs) ! i))
        \<and> ((r # rows) ! i) ''filter'' = Some (band ((?h # hs) ! i))
        \<and> ((r # rows) ! i) ''magnitude'' = Some (brightness ((?h # hs) ! i))
        \<and> ((r # rows) ! i) ''error'' = Some (brightnessError ((?h # hs) ! i))
        \<and> brightnessUnit ((?h # hs) ! i) = ''AB mag''"
  proof (intro allI impI)
    fix i assume "i < length (r # rows)"
    then show "photometryId ((?h # hs) ! i) = tn
        \<and> ((r # rows) ! i) ''time'' = Some (dateObs ((?h # hs) ! i))
        \<and> ((r # rows) ! i) ''filter'' = Some (band ((?h # hs) ! i))
        \<and> ((r # rows) ! i) ''magnitude'' = Some (brightness ((?h # hs) ! i))
        \<and> ((r # rows) ! i) ''error'' = Some (brightnessError ((?h # hs) ! i))
        \<and> brightnessUnit ((?h # hs) ! i) = ''AB mag''"
      using each r by (cases i) simp_all
  qed
  moreover have "hermes_rows tn (r # rows) acc = Inr (acc @ ?h # hs)"
    using he hs by simp
  moreover have "length (?h # hs) = length (r # rows)" using hs by simp
  ultimately show ?case by blast
qed

text \<open>The only exception of the loop over the rows is the \<open>KeyError\<close> of a missing column.\<close>

lemma hermes_entry_raises:
  "hermes_entry tn r = Inl e \<Longrightarrow> \<exists>k. e = KeyError k"
  by (auto simp: hermes_entry_def then_do_def getitem_def split: option.splits)

lemma hermes_rows_raises:
  "hermes_rows tn rows acc = Inl e \<Longrightarrow> \<exists>k. e = KeyError k"
proof (induction rows arbitrary: acc)
  case Nil
  then show ?case by simp
next
  case (Cons r rows)
  show ?case
  proof (cases "hermes_entry tn r")
    case (Inl e')
    with Cons.prems have "e' = e" by simp
    with Inl show ?thesis using hermes_entry_raises by blast
  next
    case (Inr h)
    with Cons.prems have "hermes_rows tn rows (acc @ [h]) = Inl e" by simp
    then show ?thesis by (rule Cons.IH)
  qed
qed

subsection \<open>The payload of \<open>submit_to_stream\<close>\<close>

text \<open>
  Claim C4. With a destination that has a \<open>BASE_URL\<close> and rows that have the four photometry
  columns, \<open>submit_to_stream\<close> returns normally after exactly one call: a JSON POST to the
  base URL followed by \<open>submit/\<close>, whose payload has one entry per input row, in the order
  of the rows, with \<open>photometryId\<close> the target name, \<open>dateObs\<close>, \<open>band\<close>, \<open>brightness\<close> and
  \<open>brightnessError\<close> the row's \<open>time\<close>, \<open>filter\<close>, \<open>magnitude\<close> and \<open>error\<close>, and
  \<open>brightnessUnit\<close> the constant \<open>AB mag\<close>.
\<close>

theorem submit_to_stream_payload:
  assumes "DATA_SHARING st stream_name = Some entry"
    and "entry ''BASE_URL'' = Some base_url"
    and "\<forall>r\<in>set photometry_data. {''time'', ''filter'', ''magnitude'', ''error''} \<subseteq> dom r"
  shows "\<exists>payload.
     submit_to_stream st ex stream_name target_name photometry_data w =
       (Inr (),
        w\<lparr>outbound := outbound w @
            [POST_json (base_url @ ''submit/'')
               \<lparr>topic = ''hermes.test'', title = ''TOM Toolkit test (Photometry)'',
                author = ''llindstrom@lco.global'', data = payload,
                message_text = ''Test alert from TOM Toolkit at '' @ now ex\<rparr> []]\<rparr>)
     \<and> length payload = length photometry_data
     \<and> (\<forall>i<length photometry_data.
          photometryId (payload ! i) = target_name
          \<and> (photometry_data ! i) ''time'' = Some (dateObs (payload ! i))
          \<and> (photometry_data ! i) ''filter'' = Some (band (payload ! i))
          \<and> (photometry_data ! i) ''magnitude'' = Some (brightness (payload ! i))
          \<and> (photometry_data ! i) ''error'' = Some (brightnessError (payload ! i))
          \<and> brightnessUnit (payload ! i) = ''AB mag'')"
proof -
  from hermes_rows_ok[OF assms(3), of target_name "[]"] obtain hs where
    hs: "hermes_rows target_name photometry_data [] = Inr hs"
        "length hs = length photometry_data"
    and each: "\<forall>i<length photometry_data.
          photometryId (hs ! i) = target_name
          \<and> (photometry_data ! i) ''time'' = Some (dateObs (hs ! i))
          \<and> (photometry_data ! i) ''filter'' = Some (band (hs ! i))
          \<and> (photometry_data ! i) ''magnitude'' = Some (brightness (hs ! i))
          \<and> (photometry_data ! i) ''error'' = Some (brightnessError (hs ! i))
          \<and> brightnessUnit (hs ! i) = ''AB mag''"
    by auto
  have "submit_to_stream st ex stream_name target_name photometry_data w =
       (Inr (),
        w\<lparr>outbound := outbound w @
            [POST_json (base_url @ ''submit/'')
               \<lparr>topic = ''hermes.test'', title = ''TOM Toolkit test (Photometry)'',
                author = ''llindstrom@lco.global'', data = hs,
                message_text = ''Test alert from TOM Toolkit at '' @ now ex\<rparr> []]\<rparr>)"
    using assms(1,2) hs(1) by (simp add: submit_to_stream_def request_def)
  with hs(2) each show ?thesis by blast
qed

text \<open>The theorem at the two example rows, the second with an empty error cell.\<close>

theorem submit_to_stream_payload_witness:
  "DATA_SHARING example_settings ''hermes'' = Some hermes_only
   \<and> hermes_only ''BASE_URL'' = Some ''https://hermes.example/''
   \<and> {''time'', ''filter'', ''magnitude'', ''error''} \<subseteq> dom (example_rows ! 0)
   \<and> {''time'', ''filter'', ''magnitude'', ''error''} \<subseteq> dom (example_rows ! 1)
   \<and> (\<exists>payload.
        submit_to_stream example_settings example_externals ''hermes'' ''M31'' example_rows
            example_world =
          (Inr (),
           example_world\<lparr>outbound := outbound example_world @
             [POST_json ''https://hermes.example/submit/''
                \<lparr>topic = ''hermes.test'', title = ''TOM Toolkit test (Photometry)'',
                 author = ''llindstrom@lco.global'', data = payload,
                 message_text = ''Test alert from TOM Toolkit at 2023-05-01 12:00:00''\<rparr> []]\<rparr>)
        \<and> length payload = 2
        \<and> dateObs (payload ! 0) = Str ''59000.5'' \<and> brightnessError (payload ! 1) = NoneCell)"
proof -
  have h1: "DATA_SHARING example_settings ''hermes'' = Some hermes_only"
    by (simp add: example_settings_def)
  have h2: "hermes_only ''BASE_URL'' = Some ''https://hermes.example/''"
    by (simp add: hermes_only_def)
  have h3: "\<forall>r\<in>set example_rows. {''time'', ''filter'', ''magnitude'', ''error''} \<subseteq> dom r"
    by (simp add: example_rows_def)
  have rows: "length example_rows = 2"
    "(example_rows ! 0) ''time'' = Some (Str ''59000.5'')"
    "(example_rows ! 1) ''error'' = Some NoneCell"
    by (simp_all add: example_rows_def)
  from submit_to_stream_payload[OF h1 h2 h3, of example_externals "''M31''" example_world]
  obtain payload where
    p: "submit_to_stream example_settings example_externals ''hermes'' ''M31'' example_rows
            example_world =
          (Inr (),
           example_world\<lparr>outbound := outbound example_world @
             [POST_json (''https://hermes.example/'' @ ''submit/'')
                \<lparr>topic = ''hermes.test'', title = ''TOM Toolkit test (Photometry)'',
                 author = ''llindstrom@lco.global'', data = payload,
                 message_text = ''Test alert from TOM Toolkit at '' @ now example_externals\<rparr> []]\<rparr>)"
       "length payload = length example_rows"
    and each: "\<forall>i<length example_rows.
          photometryId (payload ! i) = ''M31''
          \<and> (example_rows ! i) ''time'' = Some (dateObs (payload ! i))
          \<and> (example_rows ! i) ''filter'' = Some (band (payload ! i))
          \<and> (example_rows ! i) ''magnitude'' = Some (brightness (payload ! i))
          \<and> (example_rows ! i) ''error'' = Some (brightnessError (payload ! i))
          \<and> brightnessUnit (payload ! i) = ''AB mag''"
    by blast
  from each rows have "dateObs (payload ! 0) = Str ''59000.5''"
    "brightnessError (payload ! 1) = NoneCell"
    by auto
  moreover have "{''time'', ''filter'', ''magnitude'', ''error''} \<subseteq> dom (example_rows ! 0)"
    "{''time'', ''filter'', ''magnitude'', ''error''} \<subseteq> dom (example_rows ! 1)"
    by (simp_all add: example_rows_def)
  ultimately show ?thesis
    using h1 h2 p rows(1) by (auto simp: example_externals_def)
qed

subsection \<open>Configuration of a sharing destination\<close>

lemma sharing_config_ok:
  assumes "DATA_SHARING st tom_name = Some entry" "entry ''BASE_URL'' = Some base"
    "entry ''USERNAME'' = Some username" "entry ''PASSWORD'' = Some password"
  shows "sharing_config st tom_name = Inr (base, username, password)"
  using assms by (simp add: sharing_config_def)

lemma sharing_config_absent:
  assumes "DATA_SHARING st tom_name = None"
  shows "sharing_config st tom_name = Inl (ImproperlyConfigured tom_name tom_name)"
  using assms by (simp add: sharing_config_def)

lemma sharing_config_incomplete:
  assumes "DATA_SHARING st tom_name = Some entry"
    and "\<not> {''BASE_URL'', ''USERNAME'', ''PASSWORD''} \<subseteq> dom entry"
  shows "\<exists>key\<in>{''BASE_URL'', ''USERNAME'', ''PASSWORD''}.
           sharing_config st tom_name = Inl (ImproperlyConfigured tom_name key)"
proof (cases "entry ''BASE_URL''")
  case None
  with assms(1) show ?thesis by (simp add: sharing_config_def)
next
  case b: (Some base)
  show ?thesis
  proof (cases "entry ''USERNAME''")
    case None
    with assms(1) b show ?thesis by (simp add: sharing_config_def)
  next
    case u: (Some username)
    from assms(2) b u have "entry ''PASSWORD'' = None" by (auto simp: dom_def)
    with assms(1) b u show ?thesis by (simp add: sharing_config_def)
  qed
qed

text \<open>
  Claim C3, as the code has it. When the entry of the destination in \<open>DATA_SHARING\<close> is absent
  or lacks \<open>BASE_URL\<close>, \<open>USERNAME\<close> or \<open>PASSWORD\<close>, \<open>share_with_tom\<close> raises
  \<open>ImproperlyConfigured\<close> and nothing was sent or logged. \<open>submit_to_stream\<close> reads
  \<open>BASE_URL\<close> only: with an entry that has it, whatever the rows are and whether or not the
  entry has \<open>USERNAME\<close> and \<open>PASSWORD\<close>, it does not raise \<open>ImproperlyConfigured\<close>.
\<close>

theorem share_with_tom_misconfigured:
  "(DATA_SHARING st tom_name = None
      \<or> (\<exists>entry. DATA_SHARING st tom_name = Some entry
            \<and> \<not> {''BASE_URL'', ''USERNAME'', ''PASSWORD''} \<subseteq> dom entry)
    \<longrightarrow> (\<exists>key. share_with_tom st ex tom_name product w
                 = (Inl (ImproperlyConfigured tom_name key), w)))
   \<and> (DATA_SHARING st stream_name = Some entry' \<and> entry' ''BASE_URL'' = Some base
      \<longrightarrow> (\<forall>a b. fst (submit_to_stream st ex stream_name target_name photometry_data w)
                   \<noteq> Inl (ImproperlyConfigured a b)))"
proof (intro conjI impI)
  assume "DATA_SHARING st tom_name = None
      \<or> (\<exists>entry. DATA_SHARING st tom_name = Some entry
            \<and> \<not> {''BASE_URL'', ''USERNAME'', ''PASSWORD''} \<subseteq> dom entry)"
  then obtain key where "sharing_config st tom_name = Inl (ImproperlyConfigured tom_name key)"
    using sharing_config_absent sharing_config_incomplete by blast
  then show "\<exists>key. share_with_tom st ex tom_name product w
                 = (Inl (ImproperlyConfigured tom_name key), w)"
    by (simp add: share_with_tom_def)
next
  assume a: "DATA_SHARING st stream_name = Some entry' \<and> entry' ''BASE_URL'' = Some base"
  show "\<forall>a b. fst (submit_to_stream st ex stream_name target_name photometry_data w)
                \<noteq> Inl (ImproperlyConfigured a b)"
  proof (cases "hermes_rows target_name photometry_data []")
    case (Inl e)
    then have "\<exists>k. e = KeyError k" by (rule hermes_rows_raises)
    with a Inl show ?thesis by (auto simp: submit_to_stream_def)
  next
    case (Inr hs)
    with a show ?thesis by (simp add: submit_to_stream_def)
  qed
qed

text \<open>Both halves at the \<open>hermes\<close> entry of the example settings, which has a URL only.\<close>

theorem share_with_tom_misconfigured_witness:
  "DATA_SHARING example_settings ''hermes'' = Some hermes_only
   \<and> \<not> {''BASE_URL'', ''USERNAME'', ''PASSWORD''} \<subseteq> dom hermes_only
   \<and> share_with_tom example_settings example_externals ''hermes'' example_product example_world
       = (Inl (ImproperlyConfigured ''hermes'' ''USERNAME''), example_world)
   \<and> hermes_only ''BASE_URL'' = Some ''https://hermes.example/''
   \<and> fst (submit_to_stream example_settings example_externals ''hermes'' ''M31'' example_rows
            example_world) \<noteq> Inl (ImproperlyConfigured ''hermes'' ''USERNAME'')"
proof -
  have h1: "DATA_SHARING example_settings ''hermes'' = Some hermes_only"
    by (simp add: example_settings_def)
  have h2: "\<not> {''BASE_URL'', ''USERNAME'', ''PASSWORD''} \<subseteq> dom hermes_only"
    by (simp add: hermes_only_def dom_def)
  have h3: "hermes_only ''BASE_URL'' = Some ''https://hermes.example/''"
    by (simp add: hermes_only_def)
  note t = share_with_tom_misconfigured[of example_settings "''hermes''" example_externals
      example_product example_world "''hermes''" hermes_only "''https://hermes.example/''"
      "''M31''" example_rows]
  from t h1 h2 obtain key where
    k: "share_with_tom example_settings example_externals ''hermes'' example_product
          example_world = (Inl (ImproperlyConfigured ''hermes'' key), example_world)"
    by blast
  have "sharing_config example_settings ''hermes''
          = Inl (ImproperlyConfigured ''hermes'' ''USERNAME'')"
    by (simp add: sharing_config_def example_settings_def hermes_only_def)
  then have "share_with_tom example_settings example_externals ''hermes'' example_product
          example_world = (Inl (ImproperlyConfigured ''hermes'' ''USERNAME''), example_world)"
    by (simp add: share_with_tom_def)
  moreover from t h1 h3
  have "fst (submit_to_stream example_settings example_externals ''hermes'' ''M31''
               example_rows example_world) \<noteq> Inl (ImproperlyConfigured ''hermes'' ''USERNAME'')"
    by blast
  ultimately show ?thesis using h1 h2 h3 by blast
qed

text \<open>
  Claim C3 as stated fails on \<open>submit_to_stream\<close>: the \<open>hermes\<close> entry below has neither
  \<open>USERNAME\<close> nor \<open>PASSWORD\<close>, and the call returns normally after its POST.
\<close>

theorem submit_to_stream_without_credentials:
  "DATA_SHARING example_settings ''hermes'' = Some hermes_only
   \<and> hermes_only ''USERNAME'' = None \<and> hermes_only ''PASSWORD'' = None
   \<and> fst (submit_to_stream example_settings example_externals ''hermes'' ''M31'' []
            example_world) = Inr ()
   \<and> outbound (snd (submit_to_stream example_settings example_externals ''hermes'' ''M31'' []
            example_world))
       = [POST_json ''https://hermes.example/submit/''
            \<lparr>topic = ''hermes.test'', title = ''TOM Toolkit test (Photometry)'',
             author = ''llindstrom@lco.global'', data = [],
             message_text = ''Test alert from TOM Toolkit at 2023-05-01 12:00:00''\<rparr> []]"
  by (simp add: submit_to_stream_def example_settings_def hermes_only_def request_def
      example_world_def example_externals_def)

subsection \<open>\<open>share_with_tom\<close>: a target that is missing or ambiguous\<close>

lemma open_file_simps [simp]:
  "media w path = Some text \<Longrightarrow>
     open_file path w = (Inr text, w\<lparr>effects := effects w @ [File_opened path]\<rparr>)"
  "media w path = None \<Longrightarrow> open_file path w = (Inl (OSError path), w)"
  by (simp_all add: open_file_def)

lemma media_request [simp]: "media (request c w) = media w"
  by (simp add: request_def)

lemma media_log [simp]: "media (log l m w) = media w"
  by (simp add: log_def)

lemma outbound_post_data_product:
  "outbound (snd (post_data_product ex base auth tid product w)) =
     (case media w (data_name product) of
        None \<Rightarrow> outbound w
      | Some content \<Rightarrow>
          (case tid of
             None \<Rightarrow> outbound w
           | Some i \<Rightarrow>
               outbound w @
                 [POST_files (base @ ''api/dataproducts/'') (i, data_product_type product)
                    (data_name product, content, ''text/csv'')
                    [(''Media-Type'', ''multipart/form-data'')] auth]))"
  by (simp add: post_data_product_def request_def log_def Let_def
      split: option.splits)

text \<open>
  Claim C2. With a configured destination whose targets page has \<open>count\<close> 0 or more than 1,
  \<open>share_with_tom\<close> returns normally, and the world differs from the one it started in by
  the GET to \<open>api/targets/\<close> and one logged warning only: no POST was made and no message
  was added for the user.
\<close>

theorem share_with_tom_missing_or_ambiguous:
  assumes "DATA_SHARING st tom_name = Some entry"
    and "entry ''BASE_URL'' = Some base" and "entry ''USERNAME'' = Some username"
    and "entry ''PASSWORD'' = Some password"
    and "count (targets_response ex) = 0 \<or> count (targets_response ex) > 1"
  shows "share_with_tom st ex tom_name product w =
       (Inr (),
        w\<lparr>outbound := outbound w @
             [GET (base @ ''api/targets/'') (username, password)
                [(''name'', name (target product))]],
          logged := logged w @
             [(WARNING,
               if count (targets_response ex) = 0
               then not_found_warning (name (target product)) tom_name
               else ambiguous_warning (name (target product)) tom_name
                      (results (targets_response ex)))]\<rparr>)
     \<and> messages (snd (share_with_tom st ex tom_name product w)) = messages w"
proof -
  have c: "sharing_config st tom_name = Inr (base, username, password)"
    using assms(1-4) by (rule sharing_config_ok)
  from assms(5) show ?thesis
  proof
    assume "count (targets_response ex) = 0"
    with c show ?thesis
      by (simp add: share_with_tom_def request_def log_def Let_def)
  next
    assume "count (targets_response ex) > 1"
    with c show ?thesis
      by (simp add: share_with_tom_def request_def log_def Let_def)
  qed
qed

text \<open>The theorem at a page of two matches.\<close>

theorem share_with_tom_missing_or_ambiguous_witness:
  "count (targets_response (example_externals\<lparr>targets_response := two_matches\<rparr>)) > 1
   \<and> share_with_tom example_settings (example_externals\<lparr>targets_response := two_matches\<rparr>)
       ''localhost-tom'' example_product example_world =
       (Inr (),
        example_world\<lparr>outbound :=
             [GET ''http://127.0.0.1:8000/api/targets/'' (''alice'', ''secret'')
                [(''name'', ''M31'')]],
          logged := [(WARNING, ambiguous_warning ''M31'' ''localhost-tom'' (results two_matches))]\<rparr>)
   \<and> messages (snd (share_with_tom example_settings
          (example_externals\<lparr>targets_response := two_matches\<rparr>)
          ''localhost-tom'' example_product example_world)) = []"
proof -
  let ?e = "[''BASE_URL'' \<mapsto> ''http://127.0.0.1:8000/'',
             ''USERNAME'' \<mapsto> ''alice'', ''PASSWORD'' \<mapsto> ''secret'']"
  let ?ex = "example_externals\<lparr>targets_response := two_matches\<rparr>"
  have h: "DATA_SHARING example_settings ''localhost-tom'' = Some ?e"
    "?e ''BASE_URL'' = Some ''http://127.0.0.1:8000/''"
    "?e ''USERNAME'' = Some ''alice''" "?e ''PASSWORD'' = Some ''secret''"
    by (simp_all add: example_settings_def)
  have c: "count (targets_response ?ex) = 0 \<or> count (targets_response ?ex) > 1"
    by (simp add: two_matches_def)
  from share_with_tom_missing_or_ambiguous[OF h c, of example_product example_world]
  show ?thesis
    using c
    by (simp add: two_matches_def example_world_def example_product_def example_target_def)
qed

subsection \<open>\<open>share_with_tom\<close>: the calls it makes\<close>

text \<open>The calls of \<open>share_with_tom\<close> at a configured destination, as a function of its inputs.\<close>

lemma share_with_tom_trace:
  assumes c: "sharing_config st tom_name = Inr (base, username, password)"
  shows "outbound (snd (share_with_tom st ex tom_name product w)) =
     outbound w @
       GET (base @ ''api/targets/'') (username, password) [(''name'', name (target product))]
       # (if count (targets_response ex) = 1 then
            (case results (targets_response ex) of
               [] \<Rightarrow> []
             | t # ts \<Rightarrow>
                 (case media w (data_name product) of
                    None \<Rightarrow> []
                  | Some content \<Rightarrow>
                      [POST_files (base @ ''api/dataproducts/'')
                         (remote_id t, data_product_type product)
                         (data_name product, content, ''text/csv'')
                         [(''Media-Type'', ''multipart/form-data'')] (username, password)]))
          else [])"
  using c
  by (simp add: share_with_tom_def outbound_post_data_product request_def log_def Let_def
      split: list.splits option.splits)



subsection \<open>The calls of one sharing request\<close>

text \<open>A loop over the rows that returned found the four columns in every row.\<close>

lemma hermes_entry_returns:
  "hermes_entry tn r = Inr h \<Longrightarrow> {''time'', ''filter'', ''magnitude'', ''error''} \<subseteq> dom r"
  by (auto simp: hermes_entry_def then_do_def getitem_def split: option.splits)

lemma hermes_rows_returns:
  "hermes_rows tn rows acc = Inr hs \<Longrightarrow>
     \<forall>r\<in>set rows. {''time'', ''filter'', ''magnitude'', ''error''} \<subseteq> dom r"
proof (induction rows arbitrary: acc)
  case Nil
  then show ?case by simp
next
  case (Cons r rows)
  show ?case
  proof (cases "hermes_entry tn r")
    case (Inl e)
    with Cons.prems show ?thesis by simp
  next
    case (Inr h)
    with Cons.prems have "hermes_rows tn rows (acc @ [h]) = Inr hs" by simp
    then have "\<forall>r\<in>set rows. {''time'', ''filter'', ''magnitude'', ''error''} \<subseteq> dom r"
      by (rule Cons.IH)
    with hermes_entry_returns[OF Inr] show ?thesis by simp
  qed
qed

text \<open>
  \<open>submit_to_stream\<close> on every input: one JSON POST and a normal return, or a \<open>KeyError\<close>
  with nothing sent.
\<close>

lemma submit_to_stream_calls:
  "(if (\<exists>entry base. DATA_SHARING st stream_name = Some entry \<and> entry ''BASE_URL'' = Some base)
        \<and> (\<forall>r\<in>set photometry_data. {''time'', ''filter'', ''magnitude'', ''error''} \<subseteq> dom r)
    then \<exists>url alert.
           submit_to_stream st ex stream_name target_name photometry_data w =
             (Inr (), w\<lparr>outbound := outbound w @ [POST_json url alert []]\<rparr>)
    else \<exists>k. submit_to_stream st ex stream_name target_name photometry_data w =
             (Inl (KeyError k), w))"
proof (cases "\<exists>entry base. DATA_SHARING st stream_name = Some entry \<and> entry ''BASE_URL'' = Some base")
  case False
  then have "\<exists>k. then_do (getitem (DATA_SHARING st) stream_name)
                 (\<lambda>entry. getitem entry ''BASE_URL'') = Inl (KeyError k)"
    by (cases "DATA_SHARING st stream_name") (auto simp: getitem_def then_do_def split: option.splits)
  with False show ?thesis by (auto simp: submit_to_stream_def)
next
  case True
  then obtain entry base where
    e: "DATA_SHARING st stream_name = Some entry" "entry ''BASE_URL'' = Some base" by blast
  show ?thesis
  proof (cases "hermes_rows target_name photometry_data []")
    case (Inl err)
    then obtain k where "err = KeyError k" using hermes_rows_raises by blast
    moreover have "\<not> (\<forall>r\<in>set photometry_data.
             {''time'', ''filter'', ''magnitude'', ''error''} \<subseteq> dom r)"
      using hermes_rows_ok[of photometry_data target_name "[]"] Inl by auto
    ultimately show ?thesis using e Inl by (simp add: submit_to_stream_def)
  next
    case (Inr hs)
    have rows: "\<forall>r\<in>set photometry_data.
             {''time'', ''filter'', ''magnitude'', ''error''} \<subseteq> dom r"
      using Inr by (rule hermes_rows_returns)
    have "submit_to_stream st ex stream_name target_name photometry_data w =
        (Inr (), w\<lparr>outbound := outbound w @
           [POST_json (base @ ''submit/'')
              \<lparr>topic = ''hermes.test'', title = ''TOM Toolkit test (Photometry)'',
               author = ''llindstrom@lco.global'', data = hs,
               message_text = ''Test alert from TOM Toolkit at '' @ now ex\<rparr> []]\<rparr>)"
      using e Inr by (simp add: submit_to_stream_def request_def)
    then have "\<exists>url alert. submit_to_stream st ex stream_name target_name photometry_data w =
        (Inr (), w\<lparr>outbound := outbound w @ [POST_json url alert []]\<rparr>)"
      by blast
    then show ?thesis by (subst if_P) (use True rows in blast)+
  qed
qed

text \<open>
  Claim C6. The calls of one invocation, in the order they were made, are what the invocation
  appends to \<open>outbound\<close>. \<open>submit_to_stream\<close>, at a destination with a \<open>BASE_URL\<close> and rows
  with the four columns, returns normally having made exactly one call, a JSON POST; on every
  other input it raises \<open>KeyError\<close> and has made no call. \<open>share_with_tom\<close>, at a
  destination with \<open>BASE_URL\<close>, \<open>USERNAME\<close> and \<open>PASSWORD\<close>, makes exactly one GET, followed
  by nothing or by exactly one multipart POST under the same authentication; at any other
  destination it raises \<open>ImproperlyConfigured\<close> and has made no call. No call is made twice.
\<close>

theorem sharing_calls_never_repeated:
  "(if (\<exists>entry base. DATA_SHARING st stream_name = Some entry \<and> entry ''BASE_URL'' = Some base)
        \<and> (\<forall>r\<in>set photometry_data. {''time'', ''filter'', ''magnitude'', ''error''} \<subseteq> dom r)
    then \<exists>url alert.
           submit_to_stream st ex stream_name target_name photometry_data w =
             (Inr (), w\<lparr>outbound := outbound w @ [POST_json url alert []]\<rparr>)
    else \<exists>k. submit_to_stream st ex stream_name target_name photometry_data w =
             (Inl (KeyError k), w))
   \<and> (if \<exists>entry. DATA_SHARING st tom_name = Some entry
             \<and> {''BASE_URL'', ''USERNAME'', ''PASSWORD''} \<subseteq> dom entry
      then \<exists>url auth params rest.
             outbound (snd (share_with_tom st ex tom_name product w')) =
               outbound w' @ GET url auth params # rest
             \<and> (rest = [] \<or> (\<exists>url' d f h. rest = [POST_files url' d f h auth]))
      else \<exists>key. share_with_tom st ex tom_name product w' =
             (Inl (ImproperlyConfigured tom_name key), w'))"
proof (rule conjI)
  show "if (\<exists>entry base. DATA_SHARING st stream_name = Some entry \<and> entry ''BASE_URL'' = Some base)
        \<and> (\<forall>r\<in>set photometry_data. {''time'', ''filter'', ''magnitude'', ''error''} \<subseteq> dom r)
    then \<exists>url alert.
           submit_to_stream st ex stream_name target_name photometry_data w =
             (Inr (), w\<lparr>outbound := outbound w @ [POST_json url alert []]\<rparr>)
    else \<exists>k. submit_to_stream st ex stream_name target_name photometry_data w =
             (Inl (KeyError k), w)"
    by (rule submit_to_stream_calls)
next
  show "if \<exists>entry. DATA_SHARING st tom_name = Some entry
             \<and> {''BASE_URL'', ''USERNAME'', ''PASSWORD''} \<subseteq> dom entry
      then \<exists>url auth params rest.
             outbound (snd (share_with_tom st ex tom_name product w')) =
               outbound w' @ GET url auth params # rest
             \<and> (rest = [] \<or> (\<exists>url' d f h. rest = [POST_files url' d f h auth]))
      else \<exists>key. share_with_tom st ex tom_name product w' =
             (Inl (ImproperlyConfigured tom_name key), w')"
  proof (cases "\<exists>entry. DATA_SHARING st tom_name = Some entry
             \<and> {''BASE_URL'', ''USERNAME'', ''PASSWORD''} \<subseteq> dom entry")
    case True
    then obtain entry base username password where
      "DATA_SHARING st tom_name = Some entry" "entry ''BASE_URL'' = Some base"
      "entry ''USERNAME'' = Some username" "entry ''PASSWORD'' = Some password"
      by (auto simp: dom_def)
    then have c: "sharing_config st tom_name = Inr (base, username, password)"
      by (rule sharing_config_ok)
    have "\<exists>url auth params rest.
             outbound (snd (share_with_tom st ex tom_name product w')) =
               outbound w' @ GET url auth params # rest
             \<and> (rest = [] \<or> (\<exists>url' d f h. rest = [POST_files url' d f h auth]))"
      unfolding share_with_tom_trace[OF c]
      by (auto split: list.splits option.splits)
    then show ?thesis by (subst if_P) (use True in blast)+
  next
    case False
    then have "DATA_SHARING st tom_name = None
      \<or> (\<exists>entry. DATA_SHARING st tom_name = Some entry
            \<and> \<not> {''BASE_URL'', ''USERNAME'', ''PASSWORD''} \<subseteq> dom entry)"
      by (cases "DATA_SHARING st tom_name") auto
    then obtain key where "sharing_config st tom_name = Inl (ImproperlyConfigured tom_name key)"
      using sharing_config_absent sharing_config_incomplete by blast
    then have "\<exists>key. share_with_tom st ex tom_name product w' =
             (Inl (ImproperlyConfigured tom_name key), w')"
      by (auto simp: share_with_tom_def)
    then show ?thesis by (subst if_not_P) (use False in blast)+
  qed
qed


text \<open>
  Both operations at the example settings: one POST to \<open>hermes\<close>, and a GET with at most one
  POST after it to \<open>localhost-tom\<close>.
\<close>

theorem sharing_calls_never_repeated_witness:
  "(\<exists>entry base. DATA_SHARING example_settings ''hermes'' = Some entry
        \<and> entry ''BASE_URL'' = Some base)
   \<and> {''time'', ''filter'', ''magnitude'', ''error''} \<subseteq> dom (example_rows ! 0)
   \<and> {''time'', ''filter'', ''magnitude'', ''error''} \<subseteq> dom (example_rows ! 1)
   \<and> length example_rows = 2
   \<and> (\<exists>url alert.
         submit_to_stream example_settings example_externals ''hermes'' ''M31'' example_rows
             example_world =
           (Inr (), example_world\<lparr>outbound := [POST_json url alert []]\<rparr>))
   \<and> (\<exists>entry. DATA_SHARING example_settings ''localhost-tom'' = Some entry
         \<and> {''BASE_URL'', ''USERNAME'', ''PASSWORD''} \<subseteq> dom entry)
   \<and> (\<exists>url auth params rest.
         outbound (snd (share_with_tom example_settings example_externals ''localhost-tom''
                          example_product example_world)) = GET url auth params # rest
         \<and> (rest = [] \<or> (\<exists>url' d f h. rest = [POST_files url' d f h auth])))"
proof -
  have a1: "\<exists>entry base. DATA_SHARING example_settings ''hermes'' = Some entry
        \<and> entry ''BASE_URL'' = Some base"
    by (simp add: example_settings_def hermes_only_def)
  have a2: "\<forall>r\<in>set example_rows. {''time'', ''filter'', ''magnitude'', ''error''} \<subseteq> dom r"
    by (simp add: example_rows_def)
  have a3: "{''time'', ''filter'', ''magnitude'', ''error''} \<subseteq> dom (example_rows ! 0)"
    "{''time'', ''filter'', ''magnitude'', ''error''} \<subseteq> dom (example_rows ! 1)"
    "length example_rows = 2"
    by (simp_all add: example_rows_def)
  have b: "\<exists>entry. DATA_SHARING example_settings ''localhost-tom'' = Some entry
         \<and> {''BASE_URL'', ''USERNAME'', ''PASSWORD''} \<subseteq> dom entry"
    by (simp add: example_settings_def)
  have o: "outbound example_world = []"
    by (simp add: example_world_def)
  note t = sharing_calls_never_repeated[where st = example_settings
      and stream_name = "''hermes''" and photometry_data = example_rows
      and ex = example_externals and target_name = "''M31''" and w = example_world
      and tom_name = "''localhost-tom''" and product = example_product and w' = example_world]
  from t have
    "(\<exists>url alert.
         submit_to_stream example_settings example_externals ''hermes'' ''M31'' example_rows
             example_world =
           (Inr (), example_world\<lparr>outbound := outbound example_world @ [POST_json url alert []]\<rparr>))
     \<and> (\<exists>url auth params rest.
         outbound (snd (share_with_tom example_settings example_externals ''localhost-tom''
                          example_product example_world))
           = outbound example_world @ GET url auth params # rest
         \<and> (rest = [] \<or> (\<exists>url' d f h. rest = [POST_files url' d f h auth])))"
    unfolding if_P[OF conjI[OF a1 a2]] if_P[OF b] .
  then show ?thesis using a1 a3 b unfolding o by simp
qed

subsection \<open>\<open>DataProductShareView.get\<close>\<close>



text \<open>
  Claim C10. For a product of any other type the view returns the redirect to the target's
  detail page, and the world it leaves differs from the one it found by one debug line of
  the logger only: tables, storage, cache, permissions and messages are the same, no file was
  opened and read, and no call went out.
\<close>

theorem share_view_other_types:
  assumes "objects_get w kwargs_pk = Some product"
    and "data_product_type product \<noteq> ''photometry''"
  shows "DataProductShareView_get st ex request_GET kwargs_pk w =
     (Inr (Redirect_route ''tom_targets:detail'' (request_GET ''target_id'')),
      w\<lparr>logged := logged w @
            [(DEBUG, ''Sharing data product: '' @ str_product ex product
                       @ '' of type: '' @ data_product_type product)]\<rparr>)"
  using assms
  by (simp add: DataProductShareView_get_def log_def Let_def target_detail_def)

text \<open>The theorem at the example spectrum.\<close>

theorem share_view_other_types_witness:
  "objects_get example_world (Some 2) = Some example_spectrum
   \<and> data_product_type example_spectrum = ''spectroscopy''
   \<and> DataProductShareView_get example_settings example_externals [''target_id'' \<mapsto> ''7'']
         (Some 2) example_world =
       (Inr (Redirect_route ''tom_targets:detail'' (Some ''7'')),
        example_world
          \<lparr>logged := [(DEBUG, ''Sharing data product: spectrum.fits of type: spectroscopy'')]\<rparr>)"
proof -
  have p: "objects_get example_world (Some 2) = Some example_spectrum"
    by (simp add: objects_get_def example_world_def example_product_def example_spectrum_def)
  have q: "data_product_type example_spectrum = ''spectroscopy''"
    "data_product_type example_spectrum \<noteq> ''photometry''"
    by (simp_all add: example_spectrum_def)
  have s: "str_product example_externals example_spectrum = ''spectrum.fits''"
    by (simp add: example_externals_def example_spectrum_def)
  have e: "logged example_world = []"
    by (simp add: example_world_def)
  from share_view_other_types[OF p q(2), of example_settings example_externals
      "[''target_id'' \<mapsto> ''7'']"]
  show ?thesis using p q(1) unfolding s q(1) e by simp
qed

subsection \<open>\<open>DataProductDeleteView.delete\<close>\<close>

lemma find_pk:
  "find (\<lambda>p. pk p = i) xs = Some p \<Longrightarrow> pk p = i \<and> p \<in> set xs"
  by (induction xs) (auto split: if_splits)

lemma find_pk_map:
  "find (\<lambda>p. pk p = i) xs = Some p \<Longrightarrow> pk p' = i \<Longrightarrow>
     find (\<lambda>p. pk p = i) (map (\<lambda>q. if pk q = i then p' else q) xs) = Some p'"
  by (induction xs) (auto split: if_splits)

lemma filter_pk_map:
  "pk p' = i \<Longrightarrow>
     filter (\<lambda>p. pk p \<noteq> i) (map (\<lambda>q. if pk q = i then p' else q) xs)
       = filter (\<lambda>p. pk p \<noteq> i) xs"
  by (induction xs) auto

lemma list_ex_pk:
  "find (\<lambda>p. pk p = i) xs = Some p \<Longrightarrow> list_ex (\<lambda>q. pk q = i) xs"
  by (induction xs) (auto split: if_splits)

text \<open>
  Claim C9. When the object of the URL exists, \<open>delete\<close> returns the redirect to the
  success URL and leaves a world in which no \<open>ReducedDatum\<close> references the object (the other
  rows of that table are as they were), the object's file is gone from the storage, and the
  object's row is gone from its table. The three deletions happened in this order: the
  reduced data, then the file (when the object has one), then the object. Nothing else
  changed.
\<close>

theorem delete_view_order:
  assumes "objects_get w kwargs_pk = Some product"
  shows "DataProductDeleteView_delete ex request_GET kwargs_pk w =
     (Inr (Redirect_url (get_success_url ex request_GET)),
      w\<lparr>reduced_datums :=
           filter (\<lambda>r. data_product r \<noteq> Some (pk product)) (reduced_datums w),
        media := (if data_name product = [] then media w
                  else (media w)(data_name product := None)),
        data_products := filter (\<lambda>p. pk p \<noteq> pk product) (data_products w),
        effects := effects w @
          Reduced_deleted (pk product)
          # (if data_name product = [] then [] else [File_deleted (data_name product)])
          @ [Product_deleted (pk product)]\<rparr>)
   \<and> (\<forall>r\<in>set (reduced_datums (snd (DataProductDeleteView_delete ex request_GET kwargs_pk w))).
         data_product r \<noteq> Some (pk product))"
proof -
  from assms obtain i where k: "kwargs_pk = Some i"
    and f: "find (\<lambda>p. pk p = i) (data_products w) = Some product"
    by (cases kwargs_pk) (simp_all add: objects_get_def)
  from f have i: "pk product = i" using find_pk by blast
  let ?w1 = "delete_reduced_datums product w"
  have g1: "get_object kwargs_pk w = (Inr product, w)"
    using assms by (simp add: get_object_def)
  have g2: "get_object kwargs_pk ?w1 = (Inr product, ?w1)"
    using k f by (simp add: get_object_def objects_get_def delete_reduced_datums_def)
  have eq: "DataProductDeleteView_delete ex request_GET kwargs_pk w =
     (Inr (Redirect_url (get_success_url ex request_GET)),
      w\<lparr>reduced_datums :=
           filter (\<lambda>r. data_product r \<noteq> Some (pk product)) (reduced_datums w),
        media := (if data_name product = [] then media w
                  else (media w)(data_name product := None)),
        data_products := filter (\<lambda>p. pk p \<noteq> pk product) (data_products w),
        effects := effects w @
          Reduced_deleted (pk product)
          # (if data_name product = [] then [] else [File_deleted (data_name product)])
          @ [Product_deleted (pk product)]\<rparr>)"
  proof (cases "data_name product = []")
    case True
    then have d: "data_delete product ?w1 = ?w1" by (simp add: data_delete_def)
    show ?thesis
      unfolding DataProductDeleteView_delete_def g1 and_then_simps g2 d
      using True by (simp add: delete_product_def delete_reduced_datums_def)
  next
    case False
    let ?p' = "product\<lparr>data_name := []\<rparr>"
    let ?w2 = "data_delete product ?w1"
    have ex: "list_ex (\<lambda>q. pk q = pk product) (data_products w)"
      using f i list_ex_pk by blast
    have d: "?w2 =
       w\<lparr>reduced_datums :=
            filter (\<lambda>r. data_product r \<noteq> Some (pk product)) (reduced_datums w),
         media := (media w)(data_name product := None),
         data_products := map (\<lambda>q. if pk q = pk product then ?p' else q) (data_products w),
         effects := effects w @ [Reduced_deleted (pk product), File_deleted (data_name product)]\<rparr>"
      using False ex by (simp add: data_delete_def save_def delete_reduced_datums_def)
    have "find (\<lambda>p. pk p = i) (map (\<lambda>q. if pk q = i then ?p' else q) (data_products w))
            = Some ?p'"
      using f i by (intro find_pk_map) simp_all
    then have g3: "get_object kwargs_pk ?w2 = (Inr ?p', ?w2)"
      unfolding d using k i by (simp add: get_object_def objects_get_def)
    have fl: "filter (\<lambda>p. pk p \<noteq> i) (map (\<lambda>q. if pk q = i then ?p' else q) (data_products w))
            = filter (\<lambda>p. pk p \<noteq> i) (data_products w)"
      using i by (intro filter_pk_map) simp
    show ?thesis
      unfolding DataProductDeleteView_delete_def g1 and_then_simps g2 g3
      unfolding d using False fl i by (simp add: delete_product_def)
  qed
  show ?thesis unfolding eq by simp
qed

text \<open>The theorem at the first product of the example world, which has a file and two rows.\<close>

theorem delete_view_order_witness:
  "objects_get example_world (Some 1) = Some example_product
   \<and> fst (DataProductDeleteView_delete example_externals [''next'' \<mapsto> ''/targets/7/''] (Some 1)
           example_world) = Inr (Redirect_url ''/targets/7/'')
   \<and> reduced_datums (snd (DataProductDeleteView_delete example_externals
           [''next'' \<mapsto> ''/targets/7/''] (Some 1) example_world)) =
       [\<lparr>data_product = Some 2, datum_value = ''flux''\<rparr>,
        \<lparr>data_product = None, datum_value = ''broker''\<rparr>]
   \<and> data_products (snd (DataProductDeleteView_delete example_externals
           [''next'' \<mapsto> ''/targets/7/''] (Some 1) example_world)) =
       [example_spectrum, example_image]
   \<and> media (snd (DataProductDeleteView_delete example_externals
           [''next'' \<mapsto> ''/targets/7/''] (Some 1) example_world)) ''photometry.csv'' = None
   \<and> effects (snd (DataProductDeleteView_delete example_externals
           [''next'' \<mapsto> ''/targets/7/''] (Some 1) example_world)) =
       [Reduced_deleted 1, File_deleted ''photometry.csv'', Product_deleted 1]"
proof -
  have p: "objects_get example_world (Some 1) = Some example_product"
    by (simp add: objects_get_def example_world_def example_product_def)
  have u: "get_success_url example_externals [''next'' \<mapsto> ''/targets/7/''] = ''/targets/7/''"
    by (simp add: get_success_url_def example_externals_def)
  from delete_view_order[OF p, of example_externals "[''next'' \<mapsto> ''/targets/7/'']"]
  have "DataProductDeleteView_delete example_externals [''next'' \<mapsto> ''/targets/7/''] (Some 1)
          example_world =
     (Inr (Redirect_url (get_success_url example_externals [''next'' \<mapsto> ''/targets/7/''])),
      example_world\<lparr>reduced_datums :=
           filter (\<lambda>r. data_product r \<noteq> Some (pk example_product))
             (reduced_datums example_world),
        media := (if data_name example_product = [] then media example_world
                  else (media example_world)(data_name example_product := None)),
        data_products := filter (\<lambda>p. pk p \<noteq> pk example_product) (data_products example_world),
        effects := effects example_world @
          Reduced_deleted (pk example_product)
          # (if data_name example_product = [] then []
             else [File_deleted (data_name example_product)])
          @ [Product_deleted (pk example_product)]\<rparr>)"
    by blast
  then show ?thesis
    unfolding u using p
    by (simp add: example_world_def example_product_def example_spectrum_def
        example_image_def)
qed

subsection \<open>\<open>DataProductFeatureView.get\<close>\<close>











subsection \<open>\<open>DataProductUploadView.form_valid\<close>\<close>

text \<open>The loop over the groups appends the three grants of each group.\<close>

lemma assign_perms_eq:
  "assign_perms gs dp w =
     w\<lparr>permissions := permissions w @ concat (map (\<lambda>g. group_perms g dp) gs)\<rparr>"
  by (induction gs arbitrary: w) simp_all

text \<open>
  One turn of the loop, with the saved product named.
\<close>

lemma upload_files_unfold:
  assumes "dp = (new_data_product tgt obs f (cleaned_data_product_type form))\<lparr>pk := next_pk w\<rparr>"
  shows "upload_files st ex form tgt obs (f # fs) acc w =
     (case outcome (run_data_processor ex dp) of
        Processed \<Rightarrow>
          upload_files st ex form tgt obs fs (acc @ [str_product ex dp])
            (if \<not> TARGET_PERMISSIONS_ONLY st
             then assign_perms (cleaned_groups form) dp
                    (write_reduced_datums dp (created (run_data_processor ex dp))
                       (w\<lparr>data_products := data_products w @ [dp],
                          next_pk := Suc (next_pk w)\<rparr>))
             else write_reduced_datums dp (created (run_data_processor ex dp))
                    (w\<lparr>data_products := data_products w @ [dp], next_pk := Suc (next_pk w)\<rparr>))
      | Raised_InvalidFileFormatException iffe \<Rightarrow>
          upload_files st ex form tgt obs fs acc
            (cleanup dp (invalid_format_message ex dp iffe)
               (write_reduced_datums dp (created (run_data_processor ex dp))
                  (w\<lparr>data_products := data_products w @ [dp], next_pk := Suc (next_pk w)\<rparr>)))
      | Raised_Exception \<Rightarrow>
          upload_files st ex form tgt obs fs acc
            (cleanup dp (problem_message ex dp)
               (write_reduced_datums dp (created (run_data_processor ex dp))
                  (w\<lparr>data_products := data_products w @ [dp], next_pk := Suc (next_pk w)\<rparr>))))"
  unfolding upload_files.simps create_product_def assms Let_def prod.case ..

text \<open>
  A file whose processing ends normally: its product and rows are added, and its grants when
  permissions are not by target only; the loop goes on with the name appended.
\<close>

lemma upload_step_ok:
  assumes dp: "dp = (new_data_product tgt obs f (cleaned_data_product_type form))\<lparr>pk := next_pk w\<rparr>"
    and ok: "processed_ok ex dp"
  shows "upload_files st ex form tgt obs (f # fs) acc w =
     upload_files st ex form tgt obs fs (acc @ [str_product ex dp])
       (w\<lparr>data_products := data_products w @ [dp],
          reduced_datums := reduced_datums w @ rows_written ex dp,
          next_pk := Suc (next_pk w),
          permissions := permissions w @
            (if TARGET_PERMISSIONS_ONLY st then []
             else concat (map (\<lambda>g. group_perms g dp) (cleaned_groups form)))\<rparr>)"
proof -
  have w: "(if \<not> TARGET_PERMISSIONS_ONLY st
             then assign_perms (cleaned_groups form) dp
                    (write_reduced_datums dp (created (run_data_processor ex dp))
                       (w\<lparr>data_products := data_products w @ [dp],
                          next_pk := Suc (next_pk w)\<rparr>))
             else write_reduced_datums dp (created (run_data_processor ex dp))
                    (w\<lparr>data_products := data_products w @ [dp], next_pk := Suc (next_pk w)\<rparr>))
       = w\<lparr>data_products := data_products w @ [dp],
          reduced_datums := reduced_datums w @ rows_written ex dp,
          next_pk := Suc (next_pk w),
          permissions := permissions w @
            (if TARGET_PERMISSIONS_ONLY st then []
             else concat (map (\<lambda>g. group_perms g dp) (cleaned_groups form)))\<rparr>"
    by (simp add: assign_perms_eq write_reduced_datums_def rows_written_def)
  from ok have "outcome (run_data_processor ex dp) = Processed"
    by (simp add: processed_ok_def)
  then show ?thesis
    unfolding upload_files_unfold[OF dp] w[symmetric] by simp
qed

text \<open>
  A file whose processing raises, in a world whose keys in use are below the next key: the
  tables are as they were before the file, the key is used up, the message is added, and
  the loop goes on with the remaining files.
\<close>

lemma upload_step_failed:
  assumes dp: "dp = (new_data_product tgt obs f (cleaned_data_product_type form))\<lparr>pk := next_pk w\<rparr>"
    and bad: "\<not> processed_ok ex dp"
    and fresh: "\<forall>p\<in>set (data_products w). pk p < next_pk w"
      "\<forall>r\<in>set (reduced_datums w). \<forall>k. data_product r = Some k \<longrightarrow> k < next_pk w"
  shows "upload_files st ex form tgt obs (f # fs) acc w =
     upload_files st ex form tgt obs fs acc
       (w\<lparr>next_pk := Suc (next_pk w),
          messages := messages w @ [(ERROR, failure_message ex dp)],
          effects := effects w @ [Reduced_deleted (pk dp), Product_deleted (pk dp)]\<rparr>)"
proof -
  have k: "pk dp = next_pk w" by (simp add: dp)
  have p: "filter (\<lambda>p. pk p \<noteq> next_pk w) (data_products w) = data_products w"
    using fresh(1) by (auto simp: filter_id_conv)
  have r: "filter (\<lambda>r. data_product r \<noteq> Some (next_pk w)) (reduced_datums w) = reduced_datums w"
    using fresh(2) by (auto simp: filter_id_conv)
  have n: "filter (\<lambda>r. data_product r \<noteq> Some (next_pk w))
             (map (\<lambda>v. \<lparr>data_product = Some (next_pk w), datum_value = v\<rparr>) vs) = []" for vs
    by (simp add: filter_empty_conv)
  have c: "cleanup dp m (write_reduced_datums dp vs
             (w\<lparr>data_products := data_products w @ [dp], next_pk := Suc (next_pk w)\<rparr>)) =
       w\<lparr>next_pk := Suc (next_pk w), messages := messages w @ [(ERROR, m)],
         effects := effects w @ [Reduced_deleted (pk dp), Product_deleted (pk dp)]\<rparr>" for m vs
    by (simp add: cleanup_def add_message_def delete_product_def delete_reduced_datums_def
        write_reduced_datums_def k p r n)
  show ?thesis
  proof (cases "outcome (run_data_processor ex dp)")
    case Processed
    with bad show ?thesis by (simp add: processed_ok_def)
  next
    case (Raised_InvalidFileFormatException iffe)
    then show ?thesis
      unfolding upload_files_unfold[OF dp] c by (simp add: failure_message_def)
  next
    case Raised_Exception
    then show ?thesis
      unfolding upload_files_unfold[OF dp] c by (simp add: failure_message_def)
  qed
qed


lemma saved_products_Cons:
  "saved_products form tgt obs n (f # fs) =
     (new_data_product tgt obs f (cleaned_data_product_type form))\<lparr>pk := n\<rparr>
     # saved_products form tgt obs (Suc n) fs"
  by (simp add: saved_products_def)

text \<open>
  The whole loop, by induction over the files.
\<close>

lemma upload_files_result:
  assumes "\<forall>p\<in>set (data_products w). pk p < next_pk w"
    and "\<forall>r\<in>set (reduced_datums w). \<forall>k. data_product r = Some k \<longrightarrow> k < next_pk w"
  shows "upload_files st ex form tgt obs files acc w =
     (acc @ map (str_product ex)
              (filter (processed_ok ex) (saved_products form tgt obs (next_pk w) files)),
      w\<lparr>data_products := data_products w @
           filter (processed_ok ex) (saved_products form tgt obs (next_pk w) files),
        reduced_datums := reduced_datums w @
           concat (map (rows_written ex)
             (filter (processed_ok ex) (saved_products form tgt obs (next_pk w) files))),
        next_pk := next_pk w + length files,
        permissions := permissions w @
           (if TARGET_PERMISSIONS_ONLY st then []
            else concat (map (\<lambda>dp. concat (map (\<lambda>g. group_perms g dp) (cleaned_groups form)))
                   (filter (processed_ok ex) (saved_products form tgt obs (next_pk w) files)))),
        messages := messages w @
           map (\<lambda>dp. (ERROR, failure_message ex dp))
             (filter (\<lambda>dp. \<not> processed_ok ex dp)
                (saved_products form tgt obs (next_pk w) files)),
        effects := effects w @
           concat (map (\<lambda>dp. [Reduced_deleted (pk dp), Product_deleted (pk dp)])
             (filter (\<lambda>dp. \<not> processed_ok ex dp)
                (saved_products form tgt obs (next_pk w) files)))\<rparr>)"
  using assms
proof (induction files arbitrary: acc w)
  case Nil
  show ?case by (simp add: saved_products_def)
next
  case (Cons f fs)
  define dp where "dp = (new_data_product tgt obs f (cleaned_data_product_type form))\<lparr>pk := next_pk w\<rparr>"
  have k: "pk dp = next_pk w" by (simp add: dp_def)
  have sp: "saved_products form tgt obs (next_pk w) (f # fs) =
      dp # saved_products form tgt obs (Suc (next_pk w)) fs"
    unfolding dp_def by (rule saved_products_Cons)
  show ?case
  proof (cases "processed_ok ex dp")
    case True
    let ?W = "w\<lparr>data_products := data_products w @ [dp],
          reduced_datums := reduced_datums w @ rows_written ex dp,
          next_pk := Suc (next_pk w),
          permissions := permissions w @
            (if TARGET_PERMISSIONS_ONLY st then []
             else concat (map (\<lambda>g. group_perms g dp) (cleaned_groups form)))\<rparr>"
    have f1: "\<forall>p\<in>set (data_products ?W). pk p < next_pk ?W"
      using Cons.prems(1) k by (auto simp: less_Suc_eq)
    have f2: "\<forall>r\<in>set (reduced_datums ?W). \<forall>k. data_product r = Some k \<longrightarrow> k < next_pk ?W"
      using Cons.prems(2) k by (auto simp: less_Suc_eq rows_written_def)
    have step: "upload_files st ex form tgt obs (f # fs) acc w =
        upload_files st ex form tgt obs fs (acc @ [str_product ex dp]) ?W"
      using dp_def True by (rule upload_step_ok)
    show ?thesis
      unfolding step Cons.IH[OF f1 f2] sp using True by simp
  next
    case False
    let ?W = "w\<lparr>next_pk := Suc (next_pk w),
          messages := messages w @ [(ERROR, failure_message ex dp)],
          effects := effects w @ [Reduced_deleted (pk dp), Product_deleted (pk dp)]\<rparr>"
    have f1: "\<forall>p\<in>set (data_products ?W). pk p < next_pk ?W"
      using Cons.prems(1) by (auto simp: less_Suc_eq)
    have f2: "\<forall>r\<in>set (reduced_datums ?W). \<forall>k. data_product r = Some k \<longrightarrow> k < next_pk ?W"
      using Cons.prems(2) by (auto simp: less_Suc_eq)
    have step: "upload_files st ex form tgt obs (f # fs) acc w =
        upload_files st ex form tgt obs fs acc ?W"
      using dp_def False Cons.prems by (rule upload_step_failed)
    show ?thesis
      unfolding step Cons.IH[OF f1 f2] sp using False by simp
  qed
qed


text \<open>
  The saved products have the consecutive keys from \<open>n\<close>, so a key names one of them.
\<close>

lemma pk_saved_products:
  "map pk (saved_products form tgt obs n files) = [n..<n + length files]"
proof -
  have "pk \<circ> (\<lambda>(k, f). (new_data_product tgt obs f (cleaned_data_product_type form))\<lparr>pk := k\<rparr>)
          = fst"
    by (rule ext) (simp add: case_prod_unfold)
  then have "map pk (saved_products form tgt obs n files) = map fst (enumerate n files)"
    unfolding saved_products_def map_map by (rule arg_cong)
  then show ?thesis by (simp only: map_fst_enumerate)
qed

lemma saved_products_keys:
  assumes "p \<in> set (saved_products form tgt obs n files)"
  shows "n \<le> pk p"
    and "q \<in> set (saved_products form tgt obs n files) \<Longrightarrow> pk q = pk p \<Longrightarrow> q = p"
proof -
  have "pk p \<in> set (map pk (saved_products form tgt obs n files))"
    using assms by simp
  then show "n \<le> pk p" unfolding pk_saved_products by simp
  have "distinct (map pk (saved_products form tgt obs n files))"
    unfolding pk_saved_products by simp
  then have "inj_on pk (set (saved_products form tgt obs n files))"
    by (simp add: distinct_map)
  then show "q \<in> set (saved_products form tgt obs n files) \<Longrightarrow> pk q = pk p \<Longrightarrow> q = p"
    using assms by (auto dest: inj_onD)
qed

text \<open>
  Claim C1. The keys in use are below the next key, as they are in a table whose keys the
  database hands out. The loop then saves one product for each file and ends in the world
  given here. The table of data products is the one before the upload followed by the
  products of the files whose processing ended normally, and the table of reduced data is
  the one before the upload followed by the rows written for those products: what was there
  before, and what files before or after a failing file brought, is there. For every file
  whose processing raised \<open>InvalidFileFormatException\<close> or another exception, no data product
  has its key, no reduced datum references its key, and the error message of its \<open>except\<close>
  clause is among the messages; the messages come in the order of the files. The list of
  successful uploads has the names of the products that were processed, in order.
\<close>

theorem upload_cleanup:
  assumes "\<forall>p\<in>set (data_products w). pk p < next_pk w"
    and "\<forall>r\<in>set (reduced_datums w). \<forall>k. data_product r = Some k \<longrightarrow> k < next_pk w"
  shows "upload_files st ex form tgt obs files acc w =
     (acc @ map (str_product ex)
              (filter (processed_ok ex) (saved_products form tgt obs (next_pk w) files)),
      w\<lparr>data_products := data_products w @
           filter (processed_ok ex) (saved_products form tgt obs (next_pk w) files),
        reduced_datums := reduced_datums w @
           concat (map (rows_written ex)
             (filter (processed_ok ex) (saved_products form tgt obs (next_pk w) files))),
        next_pk := next_pk w + length files,
        permissions := permissions w @
           (if TARGET_PERMISSIONS_ONLY st then []
            else concat (map (\<lambda>dp. concat (map (\<lambda>g. group_perms g dp) (cleaned_groups form)))
                   (filter (processed_ok ex) (saved_products form tgt obs (next_pk w) files)))),
        messages := messages w @
           map (\<lambda>dp. (ERROR, failure_message ex dp))
             (filter (\<lambda>dp. \<not> processed_ok ex dp)
                (saved_products form tgt obs (next_pk w) files)),
        effects := effects w @
           concat (map (\<lambda>dp. [Reduced_deleted (pk dp), Product_deleted (pk dp)])
             (filter (\<lambda>dp. \<not> processed_ok ex dp)
                (saved_products form tgt obs (next_pk w) files)))\<rparr>)
   \<and> (\<forall>dp\<in>set (saved_products form tgt obs (next_pk w) files).
         \<not> processed_ok ex dp \<longrightarrow>
           (\<forall>p\<in>set (data_products (snd (upload_files st ex form tgt obs files acc w))).
              pk p \<noteq> pk dp)
           \<and> (\<forall>r\<in>set (reduced_datums (snd (upload_files st ex form tgt obs files acc w))).
                data_product r \<noteq> Some (pk dp))
           \<and> (ERROR, failure_message ex dp)
                \<in> set (messages (snd (upload_files st ex form tgt obs files acc w))))"
proof (rule conjI)
  note eq = upload_files_result[OF assms, of st ex form tgt obs files acc]
  show "upload_files st ex form tgt obs files acc w =
     (acc @ map (str_product ex)
              (filter (processed_ok ex) (saved_products form tgt obs (next_pk w) files)),
      w\<lparr>data_products := data_products w @
           filter (processed_ok ex) (saved_products form tgt obs (next_pk w) files),
        reduced_datums := reduced_datums w @
           concat (map (rows_written ex)
             (filter (processed_ok ex) (saved_products form tgt obs (next_pk w) files))),
        next_pk := next_pk w + length files,
        permissions := permissions w @
           (if TARGET_PERMISSIONS_ONLY st then []
            else concat (map (\<lambda>dp. concat (map (\<lambda>g. group_perms g dp) (cleaned_groups form)))
                   (filter (processed_ok ex) (saved_products form tgt obs (next_pk w) files)))),
        messages := messages w @
           map (\<lambda>dp. (ERROR, failure_message ex dp))
             (filter (\<lambda>dp. \<not> processed_ok ex dp)
                (saved_products form tgt obs (next_pk w) files)),
        effects := effects w @
           concat (map (\<lambda>dp. [Reduced_deleted (pk dp), Product_deleted (pk dp)])
             (filter (\<lambda>dp. \<not> processed_ok ex dp)
                (saved_products form tgt obs (next_pk w) files)))\<rparr>)"
    by (rule eq)
  define dps where "dps = saved_products form tgt obs (next_pk w) files"
  show "\<forall>dp\<in>set (saved_products form tgt obs (next_pk w) files).
         \<not> processed_ok ex dp \<longrightarrow>
           (\<forall>p\<in>set (data_products (snd (upload_files st ex form tgt obs files acc w))).
              pk p \<noteq> pk dp)
           \<and> (\<forall>r\<in>set (reduced_datums (snd (upload_files st ex form tgt obs files acc w))).
                data_product r \<noteq> Some (pk dp))
           \<and> (ERROR, failure_message ex dp)
                \<in> set (messages (snd (upload_files st ex form tgt obs files acc w)))"
    unfolding eq dps_def[symmetric]
  proof (intro ballI impI conjI)
    fix dp assume dp: "dp \<in> set dps" and bad: "\<not> processed_ok ex dp"
    show "(ERROR, failure_message ex dp) \<in> set (messages (snd (acc @ map (str_product ex)
              (filter (processed_ok ex) dps),
      w\<lparr>data_products := data_products w @ filter (processed_ok ex) dps,
        reduced_datums := reduced_datums w @
           concat (map (rows_written ex) (filter (processed_ok ex) dps)),
        next_pk := next_pk w + length files,
        permissions := permissions w @
           (if TARGET_PERMISSIONS_ONLY st then []
            else concat (map (\<lambda>dp. concat (map (\<lambda>g. group_perms g dp) (cleaned_groups form)))
                   (filter (processed_ok ex) dps))),
        messages := messages w @
           map (\<lambda>dp. (ERROR, failure_message ex dp))
             (filter (\<lambda>dp. \<not> processed_ok ex dp) dps),
        effects := effects w @
           concat (map (\<lambda>dp. [Reduced_deleted (pk dp), Product_deleted (pk dp)])
             (filter (\<lambda>dp. \<not> processed_ok ex dp) dps))\<rparr>)))"
      using dp bad by simp
  next
    fix dp p assume dp: "dp \<in> set dps" and bad: "\<not> processed_ok ex dp"
    have ge: "next_pk w \<le> pk dp"
      using dp unfolding dps_def by (rule saved_products_keys(1))
    have other: "pk q \<noteq> pk dp" if "q \<in> set dps" "processed_ok ex q" for q
      using saved_products_keys(2)[OF dp[unfolded dps_def] that(1)[unfolded dps_def]] that(2) bad
      by auto
    assume "p \<in> set (data_products (snd (acc @ map (str_product ex)
              (filter (processed_ok ex) dps),
      w\<lparr>data_products := data_products w @ filter (processed_ok ex) dps,
        reduced_datums := reduced_datums w @
           concat (map (rows_written ex) (filter (processed_ok ex) dps)),
        next_pk := next_pk w + length files,
        permissions := permissions w @
           (if TARGET_PERMISSIONS_ONLY st then []
            else concat (map (\<lambda>dp. concat (map (\<lambda>g. group_perms g dp) (cleaned_groups form)))
                   (filter (processed_ok ex) dps))),
        messages := messages w @
           map (\<lambda>dp. (ERROR, failure_message ex dp))
             (filter (\<lambda>dp. \<not> processed_ok ex dp) dps),
        effects := effects w @
           concat (map (\<lambda>dp. [Reduced_deleted (pk dp), Product_deleted (pk dp)])
             (filter (\<lambda>dp. \<not> processed_ok ex dp) dps))\<rparr>)))"
    then have "p \<in> set (data_products w) \<or> (p \<in> set dps \<and> processed_ok ex p)" by auto
    then show "pk p \<noteq> pk dp"
    proof
      assume "p \<in> set (data_products w)"
      with assms(1) have "pk p < next_pk w" by blast
      with ge show ?thesis by simp
    next
      assume "p \<in> set dps \<and> processed_ok ex p"
      then show ?thesis using other by blast
    qed
  next
    fix dp r assume dp: "dp \<in> set dps" and bad: "\<not> processed_ok ex dp"
    have ge: "next_pk w \<le> pk dp"
      using dp unfolding dps_def by (rule saved_products_keys(1))
    have other: "pk q \<noteq> pk dp" if "q \<in> set dps" "processed_ok ex q" for q
      using saved_products_keys(2)[OF dp[unfolded dps_def] that(1)[unfolded dps_def]] that(2) bad
      by auto
    assume "r \<in> set (reduced_datums (snd (acc @ map (str_product ex)
              (filter (processed_ok ex) dps),
      w\<lparr>data_products := data_products w @ filter (processed_ok ex) dps,
        reduced_datums := reduced_datums w @
           concat (map (rows_written ex) (filter (processed_ok ex) dps)),
        next_pk := next_pk w + length files,
        permissions := permissions w @
           (if TARGET_PERMISSIONS_ONLY st then []
            else concat (map (\<lambda>dp. concat (map (\<lambda>g. group_perms g dp) (cleaned_groups form)))
                   (filter (processed_ok ex) dps))),
        messages := messages w @
           map (\<lambda>dp. (ERROR, failure_message ex dp))
             (filter (\<lambda>dp. \<not> processed_ok ex dp) dps),
        effects := effects w @
           concat (map (\<lambda>dp. [Reduced_deleted (pk dp), Product_deleted (pk dp)])
             (filter (\<lambda>dp. \<not> processed_ok ex dp) dps))\<rparr>)))"
    then have "r \<in> set (reduced_datums w)
        \<or> (\<exists>q. q \<in> set dps \<and> processed_ok ex q \<and> r \<in> set (rows_written ex q))"
      by auto
    then show "data_product r \<noteq> Some (pk dp)"
    proof
      assume "r \<in> set (reduced_datums w)"
      with assms(2) have "\<forall>k. data_product r = Some k \<longrightarrow> k < next_pk w" by blast
      with ge show ?thesis by auto
    next
      assume "\<exists>q. q \<in> set dps \<and> processed_ok ex q \<and> r \<in> set (rows_written ex q)"
      then obtain q where q: "q \<in> set dps" "processed_ok ex q" "r \<in> set (rows_written ex q)"
        by blast
      from q(3) have "data_product r = Some (pk q)" by (auto simp: rows_written_def)
      with other[OF q(1,2)] show ?thesis by simp
    qed
  qed
qed


text \<open>
  The theorem in \<open>form_valid\<close> at the example form: the second file is refused as badly
  formatted after one row was written for it, the third fails after two rows, the first and
  the last are processed.
\<close>

theorem upload_cleanup_witness:
  "list_all (\<lambda>p. pk p < next_pk example_world) (data_products example_world)
   \<and> list_all (\<lambda>r. case data_product r of None \<Rightarrow> True | Some k \<Rightarrow> k < next_pk example_world)
         (reduced_datums example_world)
   \<and> DataProductUploadView_form_valid example_settings example_externals example_form
         example_world =
       (Inr (Redirect_url ''/targets/7/''),
        example_world
          \<lparr>data_products :=
             [example_product, example_spectrum, example_image,
              \<lparr>pk = 4, target = example_target, observation_record = None,
               data_name = ''first.csv'', product_id = None, data_product_type = ''photometry'',
               featured = False\<rparr>,
              \<lparr>pk = 7, target = example_target, observation_record = None,
               data_name = ''last.csv'', product_id = None, data_product_type = ''photometry'',
               featured = False\<rparr>],
           reduced_datums :=
             [\<lparr>data_product = Some 1, datum_value = ''17.2''\<rparr>,
              \<lparr>data_product = Some 2, datum_value = ''flux''\<rparr>,
              \<lparr>data_product = None, datum_value = ''broker''\<rparr>,
              \<lparr>data_product = Some 1, datum_value = ''17.9''\<rparr>,
              \<lparr>data_product = Some 4, datum_value = ''18.1''\<rparr>,
              \<lparr>data_product = Some 4, datum_value = ''18.3''\<rparr>,
              \<lparr>data_product = Some 7, datum_value = ''18.1''\<rparr>,
              \<lparr>data_product = Some 7, datum_value = ''18.3''\<rparr>],
           next_pk := 8,
           permissions :=
             [(''tom_dataproducts.view_dataproduct'', ''observers'', On_product 4),
              (''tom_dataproducts.delete_dataproduct'', ''observers'', On_product 4),
              (''tom_dataproducts.view_reduceddatum'', ''observers'', On_reduced_data 4),
              (''tom_dataproducts.view_dataproduct'', ''observers'', On_product 7),
              (''tom_dataproducts.delete_dataproduct'', ''observers'', On_product 7),
              (''tom_dataproducts.view_reduceddatum'', ''observers'', On_reduced_data 7)],
           messages :=
             [(ERROR, ''File format invalid for file bad.csv -- error was no header''),
              (ERROR, ''There was a problem processing your file: worse.csv''),
              (SUCCESS, ''Successfully uploaded: first.csv'' @ [CHR 0x0A] @ ''last.csv'')],
           effects :=
             [Reduced_deleted 5, Product_deleted 5, Reduced_deleted 6, Product_deleted 6]\<rparr>)"
proof -
  have f1: "\<forall>p\<in>set (data_products example_world). pk p < next_pk example_world"
    by (simp add: example_world_def example_product_def example_spectrum_def
        example_image_def)
  have f2: "\<forall>r\<in>set (reduced_datums example_world).
              \<forall>k. data_product r = Some k \<longrightarrow> k < next_pk example_world"
    by (simp add: example_world_def)
  have dps: "saved_products example_form example_target None (next_pk example_world)
               (FILES example_form) =
      [\<lparr>pk = 4, target = example_target, observation_record = None,
        data_name = ''first.csv'', product_id = None, data_product_type = ''photometry'',
        featured = False\<rparr>,
       \<lparr>pk = 5, target = example_target, observation_record = None,
        data_name = ''bad.csv'', product_id = None, data_product_type = ''photometry'',
        featured = False\<rparr>,
       \<lparr>pk = 6, target = example_target, observation_record = None,
        data_name = ''worse.csv'', product_id = None, data_product_type = ''photometry'',
        featured = False\<rparr>,
       \<lparr>pk = 7, target = example_target, observation_record = None,
        data_name = ''last.csv'', product_id = None, data_product_type = ''photometry'',
        featured = False\<rparr>]"
    by (simp add: saved_products_def new_data_product_def example_form_def example_world_def)
  have ex: "run_data_processor example_externals = example_processor"
    "str_product example_externals = data_name"
    by (simp_all add: example_externals_def)
  note t = upload_cleanup[OF f1 f2, of example_settings example_externals example_form
      example_target None "FILES example_form" "[]", THEN conjunct1, unfolded dps]
  have u: "upload_files example_settings example_externals example_form example_target None
             (FILES example_form) [] example_world =
      ([''first.csv'', ''last.csv''],
       example_world
          \<lparr>data_products := data_products example_world @
             [\<lparr>pk = 4, target = example_target, observation_record = None,
               data_name = ''first.csv'', product_id = None, data_product_type = ''photometry'',
               featured = False\<rparr>,
              \<lparr>pk = 7, target = example_target, observation_record = None,
               data_name = ''last.csv'', product_id = None, data_product_type = ''photometry'',
               featured = False\<rparr>],
           reduced_datums := reduced_datums example_world @
             [\<lparr>data_product = Some 4, datum_value = ''18.1''\<rparr>,
              \<lparr>data_product = Some 4, datum_value = ''18.3''\<rparr>,
              \<lparr>data_product = Some 7, datum_value = ''18.1''\<rparr>,
              \<lparr>data_product = Some 7, datum_value = ''18.3''\<rparr>],
           next_pk := 8,
           permissions := permissions example_world @
             [(''tom_dataproducts.view_dataproduct'', ''observers'', On_product 4),
              (''tom_dataproducts.delete_dataproduct'', ''observers'', On_product 4),
              (''tom_dataproducts.view_reduceddatum'', ''observers'', On_reduced_data 4),
              (''tom_dataproducts.view_dataproduct'', ''observers'', On_product 7),
              (''tom_dataproducts.delete_dataproduct'', ''observers'', On_product 7),
              (''tom_dataproducts.view_reduceddatum'', ''observers'', On_reduced_data 7)],
           messages := messages example_world @
             [(ERROR, ''File format invalid for file bad.csv -- error was no header''),
              (ERROR, ''There was a problem processing your file: worse.csv'')],
           effects := effects example_world @
             [Reduced_deleted 5, Product_deleted 5, Reduced_deleted 6, Product_deleted 6]\<rparr>)"
    unfolding t
    by (simp add: processed_ok_def rows_written_def failure_message_def group_perms_def
        invalid_format_message_def problem_message_def ex example_processor_def
        example_settings_def example_form_def example_world_def)
  have l: "list_all (\<lambda>p. pk p < next_pk example_world) (data_products example_world)"
    "list_all (\<lambda>r. case data_product r of None \<Rightarrow> True | Some k \<Rightarrow> k < next_pk example_world)
         (reduced_datums example_world)"
    by (simp_all add: example_world_def example_product_def example_spectrum_def
        example_image_def)
  have "DataProductUploadView_form_valid example_settings example_externals example_form
         example_world =
       (let (successful_uploads, w1) =
              upload_files example_settings example_externals example_form example_target None
                (FILES example_form) [] example_world;
            w2 = (if successful_uploads \<noteq> []
                  then add_message SUCCESS
                         (''Successfully uploaded: '' @ join [CHR 0x0A] successful_uploads) w1
                  else w1)
        in (Inr (Redirect_url ''/targets/7/''), w2))"
    by (simp add: DataProductUploadView_form_valid_def example_form_def
        del: upload_files.simps)
  then show ?thesis
    unfolding u using l
    by (simp add: add_message_def example_world_def)
qed

end
